theory Spec2Isabelle
  imports Main "HOL-Library.Word"
begin

unbundle bit_operations_syntax

section \<open>Machine integers, error codes and the register window\<close>

text \<open>
  The driver (phy-rtl-otto-serdes.c) works on \<open>u16\<close>, \<open>u32\<close> and \<open>int\<close>. All three are
  words here; a C \<open>int\<close> is a 32 bit two's complement value, read with \<open>sint\<close> where the
  source compares it with zero. Addresses of the 32 bit SoC are \<open>u32\<close> as well.
\<close>

type_synonym u16 = "16 word"
type_synonym u32 = "32 word"
type_synonym s32 = "32 word"

text \<open>The errno values the driver returns (negated), as in the kernel's errno-base.h.\<close>

definition EIO :: s32 where
  "EIO = 5"

definition EACCES :: s32 where
  "EACCES = 13"

definition EINVAL :: s32 where
  "EINVAL = 22"

text \<open>
  Everything the driver does to the outside is an event of a trace, in the order of
  execution: a 32 bit read or write of the register window, a sleep
  (\<open>usleep_range(min, max)\<close>), and taking or releasing the controller's mutex. The
  hardware is a \<open>device\<close>: it tells which value a read returns after the accesses made
  so far. Messages written with \<open>dev_err\<close> are not part of the model.
\<close>

datatype io_event =
    IoRead u32
  | IoWrite u32 u32
  | USleep u32 u32
  | MutexLock
  | MutexUnlock

type_synonym trace = "io_event list"
type_synonym device = "trace \<Rightarrow> u32 \<Rightarrow> u32"

definition ioread32 :: "device \<Rightarrow> u32 \<Rightarrow> trace \<Rightarrow> u32 \<times> trace" where
  "ioread32 dev addr tr = (dev tr addr, tr @ [IoRead addr])"

definition iowrite32 :: "u32 \<Rightarrow> u32 \<Rightarrow> trace \<Rightarrow> trace" where
  "iowrite32 v addr tr = tr @ [IoWrite addr v]"

text \<open>\<open>iomask32(mask, value, addr)\<close> is
  \<open>iowrite32((ioread32(addr) & ~(mask)) | (value), addr)\<close>.\<close>

definition iomask32 :: "device \<Rightarrow> u32 \<Rightarrow> u32 \<Rightarrow> u32 \<Rightarrow> trace \<Rightarrow> trace" where
  "iomask32 dev msk v addr tr =
     (let (old, tr1) = ioread32 dev addr tr
      in iowrite32 ((old AND NOT msk) OR v) addr tr1)"

definition usleep_range :: "u32 \<Rightarrow> u32 \<Rightarrow> trace \<Rightarrow> trace" where
  "usleep_range lo hi tr = tr @ [USleep lo hi]"

definition mutex_lock :: "trace \<Rightarrow> trace" where
  "mutex_lock tr = tr @ [MutexLock]"

definition mutex_unlock :: "trace \<Rightarrow> trace" where
  "mutex_unlock tr = tr @ [MutexUnlock]"

text \<open>\<open>BIT(nr)\<close> is \<open>1UL << nr\<close>; the driver uses it with lane numbers only.\<close>

definition BIT :: "u32 \<Rightarrow> u32" where
  "BIT nr = push_bit (unat nr) 1"

definition RTSDS_SWITCH_ADDR_BASE :: u32 where
  "RTSDS_SWITCH_ADDR_BASE = 0xbb000000"

definition RTSDS_REG :: "u32 \<Rightarrow> u32" where
  "RTSDS_REG x = RTSDS_SWITCH_ADDR_BASE + x"

section \<open>Data model (phy-rtl-otto-serdes.h)\<close>

definition RTSDS_EVENT_SETUP :: nat where "RTSDS_EVENT_SETUP = 0"
definition RTSDS_EVENT_INIT :: nat where "RTSDS_EVENT_INIT = 1"
definition RTSDS_EVENT_POWER_ON :: nat where "RTSDS_EVENT_POWER_ON = 2"
definition RTSDS_EVENT_PRE_SET_MODE :: nat where "RTSDS_EVENT_PRE_SET_MODE = 3"
definition RTSDS_EVENT_POST_SET_MODE :: nat where "RTSDS_EVENT_POST_SET_MODE = 4"
definition RTSDS_EVENT_PRE_RESET :: nat where "RTSDS_EVENT_PRE_RESET = 5"
definition RTSDS_EVENT_POST_RESET :: nat where "RTSDS_EVENT_POST_RESET = 6"
definition RTSDS_EVENT_PRE_POWER_OFF :: nat where "RTSDS_EVENT_PRE_POWER_OFF = 7"
definition RTSDS_EVENT_POST_POWER_OFF :: nat where "RTSDS_EVENT_POST_POWER_OFF = 8"
definition RTSDS_EVENT_MAX :: nat where "RTSDS_EVENT_MAX = 8"

definition RTSDS_SEQ_STOP :: u16 where "RTSDS_SEQ_STOP = 0"
definition RTSDS_SEQ_MASK :: u16 where "RTSDS_SEQ_MASK = 1"
definition RTSDS_SEQ_WAIT :: u16 where "RTSDS_SEQ_WAIT = 2"

definition RTSDS_838X_MAX_SDS :: u32 where "RTSDS_838X_MAX_SDS = 5"
definition RTSDS_838X_MAX_PAGE :: u32 where "RTSDS_838X_MAX_PAGE = 3"
definition RTSDS_838X_SDS_MODE_SEL :: u32 where "RTSDS_838X_SDS_MODE_SEL = RTSDS_REG 0x0028"
definition RTSDS_838X_INT_MODE_CTRL :: u32 where "RTSDS_838X_INT_MODE_CTRL = RTSDS_REG 0x005c"
definition RTSDS_839X_MAX_SDS :: u32 where "RTSDS_839X_MAX_SDS = 13"
definition RTSDS_839X_MAX_PAGE :: u32 where "RTSDS_839X_MAX_PAGE = 11"
definition RTSDS_930X_MAX_SDS :: u32 where "RTSDS_930X_MAX_SDS = 11"
definition RTSDS_930X_MAX_PAGE :: u32 where "RTSDS_930X_MAX_PAGE = 63"
definition RTSDS_931X_MAX_SDS :: u32 where "RTSDS_931X_MAX_SDS = 13"
definition RTSDS_931X_MAX_PAGE :: u32 where "RTSDS_931X_MAX_PAGE = 191"

text \<open>\<open>struct rtsds_seq\<close>: one step of an event script, six packed \<open>u16\<close>.\<close>

record rtsds_seq =
  seq_action :: u16
  seq_ports :: u16
  seq_page :: u16
  seq_reg :: u16
  seq_val :: u16
  seq_mask :: u16

text \<open>\<open>struct rtsds_sds\<close> without its \<open>phy\<close> pointer.\<close>

record rtsds_sds =
  sds_mode :: s32
  sds_link :: s32
  min_port :: s32
  max_port :: s32

text \<open>
  \<open>struct rtsds_ctrl\<close> without \<open>dev\<close>, and with the mutex left to the trace. \<open>sds\<close> is
  the array \<open>sds[RTSDS_930X_MAX_SDS + 1]\<close>. \<open>sequence evt\<close> is the pointer
  \<open>sequence[evt]\<close>: \<open>None\<close> for \<open>NULL\<close>, otherwise the records read from the device
  tree. \<open>rtsds_load_events\<close> allocates one zeroed record more than it reads, so the
  buffer is this list followed by a record whose action is \<open>RTSDS_SEQ_STOP\<close>. The
  pointer \<open>conf\<close> is passed next to the controller, as an \<open>rtsds_conf\<close>.
\<close>

record rtsds_ctrl =
  base :: u32
  sds_mask :: u32
  sds :: "rtsds_sds list"
  sequence :: "nat \<Rightarrow> rtsds_seq list option"

text \<open>
  \<open>struct rtsds_conf\<close>: the bounds of a family and its backend functions, as far as the
  functions below call them (\<open>reset\<close>, \<open>get_mode\<close> and \<open>mode_map\<close> have no caller
  here; \<open>mode_map\<close> is an argument of \<open>rtsds_hwmode_to_phymode\<close>).
\<close>

record rtsds_conf =
  max_sds :: u32
  max_page :: u32
  conf_read :: "device \<Rightarrow> rtsds_ctrl \<Rightarrow> u32 \<Rightarrow> u32 \<Rightarrow> u32 \<Rightarrow> trace \<Rightarrow> s32 \<times> trace"
  conf_mask ::
    "device \<Rightarrow> rtsds_ctrl \<Rightarrow> u32 \<Rightarrow> u32 \<Rightarrow> u32 \<Rightarrow> u32 \<Rightarrow> u32 \<Rightarrow> trace \<Rightarrow> s32 \<times> trace"
  conf_set_mode :: "device \<Rightarrow> rtsds_ctrl \<Rightarrow> u32 \<Rightarrow> s32 \<Rightarrow> trace \<Rightarrow> s32 \<times> trace"

text \<open>\<open>struct rtsds_macro\<close>: what a lane handle (\<open>struct phy\<close>) carries as driver data.\<close>

record rtsds_macro =
  macro_ctrl :: rtsds_ctrl
  macro_sid :: u32

section \<open>Mode codec\<close>

text \<open>
  \<open>RTSDS_COMBOMODE(mode, submode)\<close> is \<open>(0x10000 | (mode << 8) | submode)\<close>,
  \<open>RTSDS_MODE(combomode)\<close> is \<open>((combomode >> 8) & 0xff)\<close> and
  \<open>RTSDS_SUBMODE(combomode)\<close> is \<open>(combomode & 0xff)\<close>. The mask keeps bits 8 to 15
  only, where the arithmetic shift of a C \<open>int\<close> and \<open>drop_bit\<close> agree.
\<close>

definition RTSDS_COMBOMODE :: "s32 \<Rightarrow> s32 \<Rightarrow> s32" where
  "RTSDS_COMBOMODE mode submode = 0x10000 OR push_bit 8 mode OR submode"

definition RTSDS_MODE :: "s32 \<Rightarrow> s32" where
  "RTSDS_MODE combomode = drop_bit 8 combomode AND 0xff"

definition RTSDS_SUBMODE :: "s32 \<Rightarrow> s32" where
  "RTSDS_SUBMODE combomode = combomode AND 0xff"

text \<open>
  \<open>rtsds_hwmode_to_phymode\<close> scans \<open>ctrl->conf->mode_map[m]\<close> for
  \<open>m = 0 .. PHY_INTERFACE_MODE_MAX - 1\<close> and returns the first \<open>m\<close> whose entry is
  \<open>hwmode\<close>, or \<open>PHY_INTERFACE_MODE_MAX\<close>. The table has
  \<open>PHY_INTERFACE_MODE_MAX\<close> entries, indexed by the kernel's \<open>phy_interface_t\<close>; that
  enumeration is declared outside the driver, so the table is an argument and its length
  stands for \<open>PHY_INTERFACE_MODE_MAX\<close>. \<open>hwmode_scan\<close> is the loop, \<open>m\<close> its counter.
\<close>

fun hwmode_scan :: "s32 list \<Rightarrow> s32 \<Rightarrow> nat \<Rightarrow> nat" where
  "hwmode_scan [] hwmode m = m"
| "hwmode_scan (e # es) hwmode m = (if e = hwmode then m else hwmode_scan es hwmode (Suc m))"

definition rtsds_hwmode_to_phymode :: "s32 list \<Rightarrow> s32 \<Rightarrow> nat" where
  "rtsds_hwmode_to_phymode mode_map hwmode = hwmode_scan mode_map hwmode 0"

section \<open>Sequencer\<close>

text \<open>\<open>seq->ports & BIT(sid)\<close>: the step applies to lane \<open>sid\<close>.\<close>

definition seq_applies :: "rtsds_seq \<Rightarrow> u32 \<Rightarrow> bool" where
  "seq_applies s sid = (ucast (seq_ports s) AND BIT sid \<noteq> 0)"

text \<open>
  The \<open>while\<close> loop of \<open>rtsds_run_event\<close>, with the local \<open>delay\<close> as an argument
  (the counter \<open>step\<close> is only printed). The end of the list is the zeroed record that
  \<open>rtsds_load_events\<close> leaves behind the data: a \<open>RTSDS_SEQ_STOP\<close>.
\<close>

fun run_event_loop ::
  "rtsds_conf \<Rightarrow> device \<Rightarrow> rtsds_ctrl \<Rightarrow> u32 \<Rightarrow> s32 \<Rightarrow> rtsds_seq list \<Rightarrow> trace \<Rightarrow> s32 \<times> trace"
where
  "run_event_loop conf dev ctrl sid delay [] tr = (0, tr)"
| "run_event_loop conf dev ctrl sid delay (s # ss) tr =
     (if seq_action s = RTSDS_SEQ_STOP then (0, tr)
      else
        let delay1 = (if seq_action s = RTSDS_SEQ_WAIT \<and> seq_applies s sid
                      then ucast (seq_val s) else delay);
            tr1 = (if delay1 \<noteq> 0
                   then usleep_range (push_bit 10 delay1) (push_bit 10 delay1 + 1000) tr
                   else tr)
        in if seq_action s = RTSDS_SEQ_MASK \<and> seq_applies s sid
           then
             (let (ret, tr2) = conf_mask conf dev ctrl sid (ucast (seq_page s))
                                 (ucast (seq_reg s)) (ucast (seq_val s)) (ucast (seq_mask s)) tr1
              in if ret \<noteq> 0 then (- EIO, tr2)
                 else run_event_loop conf dev ctrl sid delay1 ss tr2)
           else run_event_loop conf dev ctrl sid delay1 ss tr1)"

definition rtsds_run_event ::
  "rtsds_conf \<Rightarrow> device \<Rightarrow> rtsds_ctrl \<Rightarrow> u32 \<Rightarrow> nat \<Rightarrow> trace \<Rightarrow> s32 \<times> trace"
where
  "rtsds_run_event conf dev ctrl sid evt tr =
     (if evt > RTSDS_EVENT_MAX \<or> sid > max_sds conf then (- EINVAL, tr)
      else case sequence ctrl evt of
             None \<Rightarrow> (0, tr)
           | Some seq \<Rightarrow> run_event_loop conf dev ctrl sid 0 seq tr)"

section \<open>Register backend: RTL838x\<close>

definition rtsds_838x_offset :: "u32 \<Rightarrow> u32 \<Rightarrow> u32 \<Rightarrow> s32" where
  "rtsds_838x_offset sid page reg =
     (if page = 0 \<or> page = 3
      then push_bit 9 sid + push_bit 7 page + push_bit 2 reg
      else 0xb80 + push_bit 8 sid + push_bit 7 page + push_bit 2 reg)"

definition rtsds_838x_read ::
  "device \<Rightarrow> rtsds_ctrl \<Rightarrow> u32 \<Rightarrow> u32 \<Rightarrow> u32 \<Rightarrow> trace \<Rightarrow> s32 \<times> trace"
where
  "rtsds_838x_read dev ctrl sid page reg tr =
     (if sid > RTSDS_838X_MAX_SDS \<or> page > RTSDS_838X_MAX_PAGE \<or> reg > 31
      then (- EINVAL, tr)
      else
        let offs = rtsds_838x_offset sid page reg;
            tr1 = (if page = 2 \<and> reg = 1
                   then snd (ioread32 dev (base ctrl + offs) tr) else tr)
        in ioread32 dev (base ctrl + offs) tr1)"

definition rtsds_838x_mask ::
  "device \<Rightarrow> rtsds_ctrl \<Rightarrow> u32 \<Rightarrow> u32 \<Rightarrow> u32 \<Rightarrow> u32 \<Rightarrow> u32 \<Rightarrow> trace \<Rightarrow> s32 \<times> trace"
where
  "rtsds_838x_mask dev ctrl sid page reg val msk tr =
     (if sid > RTSDS_838X_MAX_SDS \<or> page > RTSDS_838X_MAX_PAGE \<or> reg > 31
      then (- EINVAL, tr)
      else
        let offs = rtsds_838x_offset sid page reg;
            tr1 = (if page = 2 \<and> reg = 1
                   then snd (ioread32 dev (base ctrl + offs) tr) else tr)
        in (0, iomask32 dev msk val (base ctrl + offs) tr1))"

definition rtsds_838x_set_mode ::
  "device \<Rightarrow> rtsds_ctrl \<Rightarrow> u32 \<Rightarrow> s32 \<Rightarrow> trace \<Rightarrow> s32 \<times> trace"
where
  "rtsds_838x_set_mode dev ctrl sid combomode tr =
     (let mode = RTSDS_MODE combomode; submode = RTSDS_SUBMODE combomode
      in if sid > RTSDS_838X_MAX_SDS then (- EINVAL, tr)
         else
           let tr1 = (if sid = 4 \<or> sid = 5
                      then (let shift = (sid - 4) * 3
                            in iomask32 dev (push_bit (unat shift) 0x7)
                                 (push_bit (unat shift) (submode AND 0x7))
                                 RTSDS_838X_INT_MODE_CTRL tr)
                      else tr);
               shift = 25 - sid * 5
           in (0, iomask32 dev (push_bit (unat shift) 0x1f)
                    (push_bit (unat shift) (mode AND 0x1f)) RTSDS_838X_SDS_MODE_SEL tr1))"

definition rtsds_838x_conf :: rtsds_conf where
  "rtsds_838x_conf =
     \<lparr> max_sds = RTSDS_838X_MAX_SDS, max_page = RTSDS_838X_MAX_PAGE,
       conf_read = rtsds_838x_read, conf_mask = rtsds_838x_mask,
       conf_set_mode = rtsds_838x_set_mode \<rparr>"

section \<open>Register backend: RTL839x\<close>

text \<open>The result is a C \<open>int\<close>; \<open>- 1\<close> marks a page that the lane does not have.\<close>

definition rtsds_839x_offset :: "u32 \<Rightarrow> u32 \<Rightarrow> u32 \<Rightarrow> s32" where
  "rtsds_839x_offset sid page reg =
     (let offs = push_bit 9 (sid AND 0xfe) + push_bit 1 (reg AND 0xfe)
      in if page < 4 then offs + (push_bit 8 (sid AND 1) + push_bit 6 page)
         else if page < 8 then
           (if sid \<noteq> 8 \<and> sid \<noteq> 12 then - 1
            else offs + (0x100 + push_bit 6 page))
         else if page < 10 then
           (if sid = 8 \<or> sid = 9 \<or> sid = 12 \<or> sid = 13 then - 1
            else offs + (0x100 + push_bit 7 (sid AND 1) + push_bit 6 page))
         else
           (if sid \<noteq> 8 \<and> sid \<noteq> 9 \<and> sid \<noteq> 12 \<and> sid \<noteq> 13 then - 1
            else offs + (0x100 + push_bit 7 (sid AND 1) + push_bit 6 (page - 2))))"

definition rtsds_839x_read ::
  "device \<Rightarrow> rtsds_ctrl \<Rightarrow> u32 \<Rightarrow> u32 \<Rightarrow> u32 \<Rightarrow> trace \<Rightarrow> s32 \<times> trace"
where
  "rtsds_839x_read dev ctrl sid page reg tr =
     (let shift = push_bit 4 reg AND 0x10
      in if sid > RTSDS_839X_MAX_SDS \<or> page > RTSDS_839X_MAX_PAGE \<or> reg > 31
         then (- EINVAL, tr)
         else
           let offs = rtsds_839x_offset sid page reg
           in if sint offs < 0 then (0, tr)
              else
                let tr1 = (if page = 2 \<and> reg = 1
                           then snd (ioread32 dev (base ctrl + offs) tr) else tr);
                    (v, tr2) = ioread32 dev (base ctrl + offs) tr1
                in (drop_bit (unat shift) v AND 0xffff, tr2))"

definition rtsds_839x_mask ::
  "device \<Rightarrow> rtsds_ctrl \<Rightarrow> u32 \<Rightarrow> u32 \<Rightarrow> u32 \<Rightarrow> u32 \<Rightarrow> u32 \<Rightarrow> trace \<Rightarrow> s32 \<times> trace"
where
  "rtsds_839x_mask dev ctrl sid page reg val msk tr =
     (if sid > RTSDS_839X_MAX_SDS \<or> page > RTSDS_839X_MAX_PAGE \<or> reg > 31
      then (- EINVAL, tr)
      else
        let offs = rtsds_839x_offset sid page reg
        in if sint offs < 0 then (0, tr)
           else
             let tr1 = (if page = 2 \<and> reg = 1
                        then snd (ioread32 dev (base ctrl + offs) tr) else tr);
                 (oldval, tr2) = ioread32 dev (base ctrl + offs) tr1;
                 val1 = (if reg AND 1 \<noteq> 0
                         then (oldval AND NOT (push_bit 16 msk)) OR push_bit 16 val
                         else (oldval AND NOT msk) OR val)
             in (0, iowrite32 val1 (base ctrl + offs) tr2))"

definition RTSDS_839X_MAC_SERDES_IF_CTRL :: u32 where
  "RTSDS_839X_MAC_SERDES_IF_CTRL = RTSDS_REG 0x0008"

text \<open>
  \<open>rtsds_839x_set_mode\<close> does not look at the status of its \<open>rtsds_839x_mask\<close> call;
  lanes are tested against \<open>RTSDS_839X_MAX_SDS\<close>, so lanes 12 and 13 pass.
\<close>

definition rtsds_839x_set_mode ::
  "device \<Rightarrow> rtsds_ctrl \<Rightarrow> u32 \<Rightarrow> s32 \<Rightarrow> trace \<Rightarrow> s32 \<times> trace"
where
  "rtsds_839x_set_mode dev ctrl sid combomode tr =
     (let shift = push_bit 2 (sid AND 7); offs = drop_bit 1 sid AND NOT 3;
          mode = RTSDS_MODE combomode; submode = RTSDS_SUBMODE combomode
      in if sid > RTSDS_839X_MAX_SDS then (- EINVAL, tr)
         else
           let tr1 = snd (rtsds_839x_mask dev ctrl sid 0 4
                            (push_bit 12 submode AND 0xf000) 0xf000 tr)
           in (0, iomask32 dev (push_bit (unat shift) 0xf)
                    (push_bit (unat shift) (mode AND 0xf))
                    (RTSDS_839X_MAC_SERDES_IF_CTRL + offs) tr1))"

definition rtsds_839x_conf :: rtsds_conf where
  "rtsds_839x_conf =
     \<lparr> max_sds = RTSDS_839X_MAX_SDS, max_page = RTSDS_839X_MAX_PAGE,
       conf_read = rtsds_839x_read, conf_mask = rtsds_839x_mask,
       conf_set_mode = rtsds_839x_set_mode \<rparr>"

section \<open>Register backends on the command bus: RTL930x and RTL931x\<close>

text \<open>
  The loop \<open>while (--cnt && (ioread32(ctrl->base) & 1)) usleep_range(50, 60);\<close> that
  both families run after a command, with the \<open>int cnt\<close> as an argument (the callers
  start it at 100). It returns the final \<open>cnt\<close>.
\<close>

function poll_busy :: "device \<Rightarrow> u32 \<Rightarrow> s32 \<Rightarrow> trace \<Rightarrow> s32 \<times> trace" where
  "poll_busy dev addr cnt tr =
     (if cnt - 1 = 0 then (cnt - 1, tr)
      else
        let (v, tr1) = ioread32 dev addr tr
        in if v AND 1 \<noteq> 0 then poll_busy dev addr (cnt - 1) (usleep_range 50 60 tr1)
           else (cnt - 1, tr1))"
  by pat_completeness auto
termination
proof (relation "measure (\<lambda>(dev, addr, cnt, tr). unat (cnt - 1))")
  show "wf (measure (\<lambda>(dev, addr, cnt, tr). unat (cnt - 1)))"
    by simp
next
  fix dev :: device and addr cnt :: u32 and tr :: trace and x :: "u32 \<times> trace" and v tr1
  assume "cnt - 1 \<noteq> 0"
  then have "unat (cnt - 1 - 1) < unat (cnt - 1)"
    by (metis unat_minus_one unat_gt_0 diff_less zero_less_one)
  then show "((dev, addr, cnt - 1, usleep_range 50 60 tr1), dev, addr, cnt, tr)
      \<in> measure (\<lambda>(dev, addr, cnt, tr). unat (cnt - 1))"
    by simp
qed

definition rtsds_930x_read ::
  "device \<Rightarrow> rtsds_ctrl \<Rightarrow> u32 \<Rightarrow> u32 \<Rightarrow> u32 \<Rightarrow> trace \<Rightarrow> s32 \<times> trace"
where
  "rtsds_930x_read dev ctrl sid page reg tr =
     (let cmd = push_bit 2 sid OR push_bit 7 page OR push_bit 13 reg OR 1
      in if sid > RTSDS_930X_MAX_SDS \<or> page > RTSDS_930X_MAX_PAGE \<or> reg > 31
         then (- EINVAL, tr)
         else
           let tr1 = iowrite32 cmd (base ctrl) tr;
               (cnt, tr2) = poll_busy dev (base ctrl) 100 tr1
           in if cnt \<noteq> 0
              then (let (v, tr3) = ioread32 dev (base ctrl + 4) tr2 in (v AND 0xffff, tr3))
              else (- EIO, tr2))"

definition rtsds_930x_mask ::
  "device \<Rightarrow> rtsds_ctrl \<Rightarrow> u32 \<Rightarrow> u32 \<Rightarrow> u32 \<Rightarrow> u32 \<Rightarrow> u32 \<Rightarrow> trace \<Rightarrow> s32 \<times> trace"
where
  "rtsds_930x_mask dev ctrl sid page reg val msk tr =
     (let cmd = push_bit 2 sid OR push_bit 7 page OR push_bit 13 reg OR 3
      in if sid > RTSDS_930X_MAX_SDS \<or> page > RTSDS_930X_MAX_PAGE \<or> reg > 31
         then (- EINVAL, tr)
         else
           let (failed, val1, tr1) =
                 (if msk \<noteq> 0xffff
                  then (let (oldval, t) = rtsds_930x_read dev ctrl sid page reg tr
                        in (sint oldval < 0, val OR (oldval AND NOT msk), t))
                  else (False, val, tr))
           in if failed then (- EIO, tr1)
              else
                let tr2 = iowrite32 val1 (base ctrl + 4) tr1;
                    tr3 = iowrite32 cmd (base ctrl) tr2;
                    (cnt, tr4) = poll_busy dev (base ctrl) 100 tr3
                in (if cnt \<noteq> 0 then 0 else - EIO, tr4))"

text \<open>\<open>map[sid]\<close> is read for \<open>sid \<le> 13\<close> only: both callers check the lane first.\<close>

definition rtsds_931x_backsid :: "u32 \<Rightarrow> u32 \<Rightarrow> s32" where
  "rtsds_931x_backsid sid page =
     (let backsid = [0, 1, 2, 3, 6, 7, 10, 11, 14, 15, 18, 19, 22, 23] ! unat sid
      in if sid AND 1 \<noteq> 0 \<and> sid \<noteq> 1 then backsid + drop_bit 6 page
         else if page \<ge> 128 then backsid + 1
         else backsid)"

definition rtsds_931x_read ::
  "device \<Rightarrow> rtsds_ctrl \<Rightarrow> u32 \<Rightarrow> u32 \<Rightarrow> u32 \<Rightarrow> trace \<Rightarrow> s32 \<times> trace"
where
  "rtsds_931x_read dev ctrl sid page reg tr =
     (if sid > RTSDS_931X_MAX_SDS \<or> page > RTSDS_931X_MAX_PAGE \<or> reg > 31
      then (- EINVAL, tr)
      else
        let backsid = rtsds_931x_backsid sid page;
            cmd = push_bit 2 backsid OR push_bit 7 (page AND 0x3f) OR push_bit 13 reg OR 1;
            tr1 = iowrite32 cmd (base ctrl) tr;
            (cnt, tr2) = poll_busy dev (base ctrl) 100 tr1
        in if cnt \<noteq> 0
           then (let (v, tr3) = ioread32 dev (base ctrl + 4) tr2 in (v AND 0xffff, tr3))
           else (- EIO, tr2))"

definition rtsds_931x_mask ::
  "device \<Rightarrow> rtsds_ctrl \<Rightarrow> u32 \<Rightarrow> u32 \<Rightarrow> u32 \<Rightarrow> u32 \<Rightarrow> u32 \<Rightarrow> trace \<Rightarrow> s32 \<times> trace"
where
  "rtsds_931x_mask dev ctrl sid page reg val msk tr =
     (if sid > RTSDS_931X_MAX_SDS \<or> page > RTSDS_931X_MAX_PAGE \<or> reg > 31
      then (- EINVAL, tr)
      else
        let backsid = rtsds_931x_backsid sid page;
            cmd = push_bit 2 backsid OR push_bit 7 (page AND 0x3f) OR push_bit 13 reg OR 3;
            (failed, val1, tr1) =
              (if msk \<noteq> 0xffff
               then (let (oldval, t) = rtsds_931x_read dev ctrl sid page reg tr
                     in (sint oldval < 0, val OR (oldval AND NOT msk), t))
               else (False, val, tr))
        in if failed then (- EIO, tr1)
           else
             let tr2 = iowrite32 val1 (base ctrl + 4) tr1;
                 tr3 = iowrite32 cmd (base ctrl) tr2;
                 (cnt, tr4) = poll_busy dev (base ctrl) 100 tr3
             in (if cnt \<noteq> 0 then 0 else - EIO, tr4))"

section \<open>Lane handle and controller\<close>

text \<open>\<open>phy_get_drvdata(phy)\<close> is the \<open>rtsds_macro\<close> of the lane handle.\<close>

definition rtsds_read ::
  "rtsds_conf \<Rightarrow> device \<Rightarrow> rtsds_macro \<Rightarrow> u32 \<Rightarrow> u32 \<Rightarrow> trace \<Rightarrow> s32 \<times> trace"
where
  "rtsds_read conf dev macro page reg tr =
     (let ctrl = macro_ctrl macro; sid = macro_sid macro
      in conf_read conf dev ctrl sid page reg tr)"

definition rtsds_mask ::
  "rtsds_conf \<Rightarrow> device \<Rightarrow> rtsds_macro \<Rightarrow> u32 \<Rightarrow> u32 \<Rightarrow> u32 \<Rightarrow> u32 \<Rightarrow> trace \<Rightarrow> s32 \<times> trace"
where
  "rtsds_mask conf dev macro page reg val msk tr =
     (let ctrl = macro_ctrl macro; sid = macro_sid macro
      in if sds_mask ctrl AND BIT sid = 0 then (- EACCES, tr)
         else conf_mask conf dev ctrl sid page reg val msk tr)"

definition rtsds_write ::
  "rtsds_conf \<Rightarrow> device \<Rightarrow> rtsds_macro \<Rightarrow> u32 \<Rightarrow> u32 \<Rightarrow> u32 \<Rightarrow> trace \<Rightarrow> s32 \<times> trace"
where
  "rtsds_write conf dev macro page reg val tr = rtsds_mask conf dev macro page reg val 0xffff tr"

text \<open>
  \<open>rtsds_phy_set_mode_int\<close> returns the status, the controller (its \<open>sds[sid].mode\<close> may
  have been stored) and the trace. The store \<open>ctrl->sds[sid].mode = phymode\<close> is defined
  in C for an index inside the array; \<open>None\<close> stands for a store behind its end.
\<close>

definition rtsds_phy_set_mode_int ::
  "rtsds_conf \<Rightarrow> device \<Rightarrow> rtsds_ctrl \<Rightarrow> u32 \<Rightarrow> s32 \<Rightarrow> s32 \<Rightarrow> trace
     \<Rightarrow> (s32 \<times> rtsds_ctrl \<times> trace) option"
where
  "rtsds_phy_set_mode_int conf dev ctrl sid phymode hwmode tr =
     (let tr0 = mutex_lock tr;
          (ret1, tr1) = rtsds_run_event conf dev ctrl sid RTSDS_EVENT_PRE_SET_MODE tr0;
          (ret2, tr2) = (if ret1 = 0 then conf_set_mode conf dev ctrl sid hwmode tr1
                         else (ret1, tr1))
      in if ret2 = 0
         then
           (if unat sid < length (sds ctrl)
            then
              let ctrl1 = ctrl\<lparr>sds := (sds ctrl)
                            [unat sid := (sds ctrl ! unat sid)\<lparr>sds_mode := phymode\<rparr>]\<rparr>;
                  (ret3, tr3) =
                    rtsds_run_event conf dev ctrl1 sid RTSDS_EVENT_POST_SET_MODE tr2
              in Some (ret3, ctrl1, mutex_unlock tr3)
            else None)
         else Some (ret2, ctrl, mutex_unlock tr2))"

section \<open>Devices, trace observations and example inputs\<close>

text \<open>
  Two devices for the statements below. \<open>mem_dev init\<close> is a register window that behaves
  like memory: a read returns the value written last to that address, or \<open>init\<close> of it.
  \<open>busy_dev\<close> answers every read with 1, so the busy bit of the command register never
  clears.
\<close>

definition mem_dev :: "(u32 \<Rightarrow> u32) \<Rightarrow> device" where
  "mem_dev init tr = fold (\<lambda>e m. case e of IoWrite a v \<Rightarrow> m(a := v) | _ \<Rightarrow> m) tr init"

definition busy_dev :: device where
  "busy_dev tr addr = 1"

fun is_usleep :: "io_event \<Rightarrow> bool" where
  "is_usleep (USleep lo hi) = True"
| "is_usleep e = False"

text \<open>The sleep of one loop iteration of \<open>rtsds_run_event\<close>, for a value of \<open>delay\<close>.\<close>

definition seq_sleep :: "s32 \<Rightarrow> io_event list" where
  "seq_sleep delay =
     (if delay \<noteq> 0 then [USleep (push_bit 10 delay) (push_bit 10 delay + 1000)] else [])"

text \<open>
  The delay in force after the steps \<open>ss\<close>, when it was \<open>d\<close> before them: the value of
  the last \<open>RTSDS_SEQ_WAIT\<close> among them that applies to the lane, or \<open>d\<close> if there is none.
\<close>

definition delay_after :: "u32 \<Rightarrow> s32 \<Rightarrow> rtsds_seq list \<Rightarrow> s32" where
  "delay_after sid d ss =
     (let ws = filter (\<lambda>s. seq_action s = RTSDS_SEQ_WAIT \<and> seq_applies s sid) ss
      in if ws = [] then d else ucast (seq_val (last ws)))"

text \<open>
  What step \<open>k\<close> of the script \<open>ss\<close> adds to the trace when the run gets past it, the
  delay having been \<open>d\<close> before the first step: the sleep of the delay in force at step
  \<open>k\<close>, and then, if the step is a \<open>RTSDS_SEQ_MASK\<close> that applies to the lane, whatever
  the backend's \<open>mask\<close> does for the step's page, register, value and mask.
\<close>

definition step_trace ::
  "rtsds_conf \<Rightarrow> device \<Rightarrow> rtsds_ctrl \<Rightarrow> u32 \<Rightarrow> s32 \<Rightarrow> rtsds_seq list \<Rightarrow> nat \<Rightarrow> trace \<Rightarrow> trace"
where
  "step_trace conf dev ctrl sid d ss k t =
     (let s = ss ! k;
          t1 = t @ seq_sleep (delay_after sid d (take (Suc k) ss))
      in if seq_action s = RTSDS_SEQ_MASK \<and> seq_applies s sid
         then snd (conf_mask conf dev ctrl sid (ucast (seq_page s)) (ucast (seq_reg s))
                     (ucast (seq_val s)) (ucast (seq_mask s)) t1)
         else t1)"

text \<open>
  The sleeps of a run as the specification words them, for comparison with the code: a
  WAIT that applies to the lane adds its delay to a pending delay, the pending delay is
  slept once before the next MODIFY that applies to the lane, and is consumed by it.
\<close>

fun spec_run_sleeps :: "u32 \<Rightarrow> s32 \<Rightarrow> rtsds_seq list \<Rightarrow> io_event list" where
  "spec_run_sleeps sid pending [] = []"
| "spec_run_sleeps sid pending (s # ss) =
     (if seq_action s = RTSDS_SEQ_STOP then []
      else if seq_action s = RTSDS_SEQ_WAIT \<and> seq_applies s sid
      then spec_run_sleeps sid (pending + ucast (seq_val s)) ss
      else if seq_action s = RTSDS_SEQ_MASK \<and> seq_applies s sid
      then seq_sleep pending @ spec_run_sleeps sid 0 ss
      else spec_run_sleeps sid pending ss)"

text \<open>
  A trace keeps the lock discipline when each register access lies between a
  \<open>mutex_lock\<close> and the next \<open>mutex_unlock\<close>; \<open>held\<close> says whether the mutex is held
  where the trace starts.
\<close>

fun access_under_lock :: "bool \<Rightarrow> trace \<Rightarrow> bool" where
  "access_under_lock held [] = True"
| "access_under_lock held (MutexLock # tr) = access_under_lock True tr"
| "access_under_lock held (MutexUnlock # tr) = access_under_lock False tr"
| "access_under_lock held (IoRead a # tr) = (held \<and> access_under_lock held tr)"
| "access_under_lock held (IoWrite a v # tr) = (held \<and> access_under_lock held tr)"
| "access_under_lock held (USleep lo hi # tr) = access_under_lock held tr"

text \<open>
  Example inputs: a script record from its six \<open>u16\<close>, and a controller with twelve
  lane records, all lanes managed, and the given window address and scripts.
\<close>

definition seq_rec :: "u16 \<Rightarrow> u16 \<Rightarrow> u16 \<Rightarrow> u16 \<Rightarrow> u16 \<Rightarrow> u16 \<Rightarrow> rtsds_seq" where
  "seq_rec a p pg r v m =
     \<lparr> seq_action = a, seq_ports = p, seq_page = pg, seq_reg = r, seq_val = v, seq_mask = m \<rparr>"

definition example_ctrl :: "u32 \<Rightarrow> (nat \<Rightarrow> rtsds_seq list option) \<Rightarrow> rtsds_ctrl" where
  "example_ctrl addr seqs =
     \<lparr> base = addr, sds_mask = 0xfff,
       sds = replicate 12 \<lparr> sds_mode = 0, sds_link = - 1, min_port = - 1, max_port = - 1 \<rparr>,
       sequence = seqs \<rparr>"

section \<open>Mode codec: round trip and tag bit\<close>

lemma word_le_ff_bit: "(w :: 32 word) \<le> 0xff \<Longrightarrow> bit w n \<Longrightarrow> n < 8"
proof -
  assume a: "w \<le> 0xff" and n: "bit w n"
  have "w < 2 ^ 8"
    using a by (simp add: word_less_nat_alt word_le_nat_alt)
  then have "w AND mask 8 = w"
    by (rule less_mask_eq)
  with n have "bit (w AND mask 8) n"
    by simp
  then show ?thesis
    by (simp only: bit_and_iff bit_mask_iff)
qed

lemma const_ff_mask: "(0xff :: 32 word) = mask 8"
  by (simp add: mask_eq_exp_minus_1)

lemma combomode_bit:
  assumes "mode \<le> 0xff" "submode \<le> 0xff"
  shows "bit (RTSDS_COMBOMODE mode submode) n \<longleftrightarrow>
           (n = 16 \<or> (8 \<le> n \<and> n < 16 \<and> bit mode (n - 8)) \<or> (n < 8 \<and> bit submode n))"
proof -
  define t :: "32 word" where "t = 2 ^ 16"
  have t: "(0x10000 :: 32 word) = t"
    by (simp add: t_def)
  have bt: "bit t k \<longleftrightarrow> k = 16" for k
    unfolding t_def by (simp only: bit_exp_iff) auto
  note hm = word_le_ff_bit [OF assms(1)] and hs = word_le_ff_bit [OF assms(2)]
  have "bit (t OR push_bit 8 mode OR submode) n \<longleftrightarrow>
           (n = 16 \<or> (8 \<le> n \<and> n < 16 \<and> bit mode (n - 8)) \<or> (n < 8 \<and> bit submode n))"
    by (auto simp add: bit_or_iff bit_push_bit_iff bt dest: hm hs)
  then show ?thesis
    unfolding RTSDS_COMBOMODE_def t .
qed

lemma combomode_mode:
  assumes "mode \<le> 0xff" "submode \<le> 0xff"
  shows "RTSDS_MODE (RTSDS_COMBOMODE mode submode) = mode"
proof (rule bit_word_eqI)
  fix n
  assume "n < LENGTH(32)"
  show "bit (RTSDS_MODE (RTSDS_COMBOMODE mode submode)) n = bit mode n"
    unfolding RTSDS_MODE_def const_ff_mask
    by (auto simp add: bit_and_iff bit_drop_bit_eq bit_mask_iff combomode_bit [OF assms]
          dest: word_le_ff_bit [OF assms(1)])
qed

lemma combomode_submode:
  assumes "mode \<le> 0xff" "submode \<le> 0xff"
  shows "RTSDS_SUBMODE (RTSDS_COMBOMODE mode submode) = submode"
proof (rule bit_word_eqI)
  fix n
  assume "n < LENGTH(32)"
  show "bit (RTSDS_SUBMODE (RTSDS_COMBOMODE mode submode)) n = bit submode n"
    unfolding RTSDS_SUBMODE_def const_ff_mask
    by (auto simp add: bit_and_iff bit_mask_iff combomode_bit [OF assms]
          dest: word_le_ff_bit [OF assms(2)])
qed

lemma combomode_tag: "RTSDS_COMBOMODE mode submode AND 0x10000 = 0x10000"
proof -
  define t :: "32 word" where "t = 2 ^ 16"
  have t: "(0x10000 :: 32 word) = t"
    by (simp add: t_def)
  have bt: "bit t k \<longleftrightarrow> k = 16" for k
    unfolding t_def by (simp only: bit_exp_iff) auto
  have "(t OR push_bit 8 mode OR submode) AND t = t"
    by (rule bit_word_eqI) (auto simp add: bit_and_iff bit_or_iff bt)
  then show ?thesis
    unfolding RTSDS_COMBOMODE_def t .
qed

lemma combomode_nonzero: "RTSDS_COMBOMODE mode submode \<noteq> 0"
proof
  assume "RTSDS_COMBOMODE mode submode = 0"
  then have "RTSDS_COMBOMODE mode submode AND 0x10000 = 0"
    by simp
  then show False
    by (simp add: combomode_tag)
qed

lemma hwmode_scan_le: "hwmode_scan es h m \<le> m + length es"
proof (induction es arbitrary: m)
  case Nil
  then show ?case by simp
next
  case (Cons e es)
  then show ?case
    using Cons.IH [of "Suc m"] by simp
qed

lemma hwmode_scan_found:
  "m \<le> hwmode_scan es h m \<and>
   (hwmode_scan es h m < m + length es \<longrightarrow> es ! (hwmode_scan es h m - m) = h)"
proof (induction es arbitrary: m)
  case Nil
  then show ?case by simp
next
  case (Cons e es)
  show ?case
  proof (cases "e = h")
    case True
    then show ?thesis by simp
  next
    case False
    from Cons.IH [of "Suc m"] have 1: "Suc m \<le> hwmode_scan es h (Suc m)"
      and 2: "hwmode_scan es h (Suc m) < Suc m + length es \<longrightarrow>
              es ! (hwmode_scan es h (Suc m) - Suc m) = h"
      by auto
    from 1 have "hwmode_scan es h (Suc m) - m = Suc (hwmode_scan es h (Suc m) - Suc m)"
      by simp
    with False 1 2 show ?thesis by simp
  qed
qed

lemma hwmode_to_phymode_hit:
  "rtsds_hwmode_to_phymode mm h = length mm \<or>
   (rtsds_hwmode_to_phymode mm h < length mm \<and> mm ! rtsds_hwmode_to_phymode mm h = h)"
  using hwmode_scan_found [of 0 mm h] hwmode_scan_le [of mm h 0]
  by (auto simp: rtsds_hwmode_to_phymode_def)

text \<open>
  C4 (as amended). For every mode and submode in 0..255, unpacking the packed code gives
  back exactly the mode and the submode; every packed code carries the tag bit 0x10000
  and is therefore never the un-set value 0, and looking a packed code up in a mode
  table either finds no entry (the result is the table's length,
  \<open>PHY_INTERFACE_MODE_MAX\<close>) or an entry that holds this very code, never an un-set one.
  The unpacking macros themselves do not look at the tag bit and return no marker.
\<close>

theorem combomode_roundtrip_tagged:
  assumes "mode \<le> 0xff" and "submode \<le> 0xff"
  shows "RTSDS_MODE (RTSDS_COMBOMODE mode submode) = mode \<and>
         RTSDS_SUBMODE (RTSDS_COMBOMODE mode submode) = submode \<and>
         RTSDS_COMBOMODE mode submode AND 0x10000 = 0x10000 \<and>
         RTSDS_COMBOMODE mode submode \<noteq> 0 \<and>
         (rtsds_hwmode_to_phymode mode_map (RTSDS_COMBOMODE mode submode) = length mode_map \<or>
          mode_map ! rtsds_hwmode_to_phymode mode_map (RTSDS_COMBOMODE mode submode) \<noteq> 0)"
proof -
  have "rtsds_hwmode_to_phymode mode_map (RTSDS_COMBOMODE mode submode) = length mode_map \<or>
        mode_map ! rtsds_hwmode_to_phymode mode_map (RTSDS_COMBOMODE mode submode) \<noteq> 0"
    using hwmode_to_phymode_hit [of mode_map "RTSDS_COMBOMODE mode submode"]
      combomode_nonzero [of mode submode]
    by auto
  then show ?thesis
    using combomode_mode [OF assms] combomode_submode [OF assms]
      combomode_tag [of mode submode] combomode_nonzero [of mode submode]
    by simp
qed

text \<open>
  Witness for C4: mode 4 with submode 1 (1000BASE-X of the RTL838x table), looked up in
  a table whose entry 0 is the code for mode 0 and whose entry 3 is this code.
\<close>

theorem combomode_roundtrip_tagged_witness:
  "(4 :: 32 word) \<le> 0xff \<and> (1 :: 32 word) \<le> 0xff \<and>
   RTSDS_COMBOMODE 4 1 = 0x10401 \<and>
   RTSDS_MODE (RTSDS_COMBOMODE 4 1) = 4 \<and>
   RTSDS_SUBMODE (RTSDS_COMBOMODE 4 1) = 1 \<and>
   RTSDS_COMBOMODE 4 1 AND 0x10000 = 0x10000 \<and>
   RTSDS_COMBOMODE 4 1 \<noteq> 0 \<and>
   rtsds_hwmode_to_phymode [RTSDS_COMBOMODE 0 0, 0, 0, RTSDS_COMBOMODE 4 1]
     (RTSDS_COMBOMODE 4 1) = 3"
  using combomode_roundtrip_tagged [of 4 1 "[RTSDS_COMBOMODE 0 0, 0, 0, RTSDS_COMBOMODE 4 1]"]
  by (simp add: RTSDS_COMBOMODE_def rtsds_hwmode_to_phymode_def)

text \<open>
  Counterexample to C4 as stated: unpacking the un-set value 0 gives mode 0 and submode
  0, the same pair as unpacking the packed code of (0, 0), which is the code of the
  RTL838x and RTL839x tables for "off"; and the reverse lookup of 0 in a table with an
  un-set entry returns the index of that entry, not the table's length.
\<close>

theorem combomode_unpack_zero_counterexample:
  "RTSDS_MODE 0 = RTSDS_MODE (RTSDS_COMBOMODE 0 0) \<and>
   RTSDS_SUBMODE 0 = RTSDS_SUBMODE (RTSDS_COMBOMODE 0 0) \<and>
   RTSDS_COMBOMODE 0 0 \<noteq> 0 \<and>
   rtsds_hwmode_to_phymode [RTSDS_COMBOMODE 0 0, 0, 0, RTSDS_COMBOMODE 4 1] 0 = 1"
  by (simp add: RTSDS_MODE_def RTSDS_SUBMODE_def RTSDS_COMBOMODE_def
      rtsds_hwmode_to_phymode_def)

section \<open>Register backends: argument checks\<close>

lemma rtsds_838x_bounds:
  "sid > RTSDS_838X_MAX_SDS \<or> page > RTSDS_838X_MAX_PAGE \<or> reg > 31 \<Longrightarrow>
   rtsds_838x_read dev ctrl sid page reg tr = (- EINVAL, tr) \<and>
   rtsds_838x_mask dev ctrl sid page reg val msk tr = (- EINVAL, tr)"
  by (auto simp add: rtsds_838x_read_def rtsds_838x_mask_def)

lemma rtsds_839x_bounds:
  "sid > RTSDS_839X_MAX_SDS \<or> page > RTSDS_839X_MAX_PAGE \<or> reg > 31 \<Longrightarrow>
   rtsds_839x_read dev ctrl sid page reg tr = (- EINVAL, tr) \<and>
   rtsds_839x_mask dev ctrl sid page reg val msk tr = (- EINVAL, tr)"
  by (auto simp add: rtsds_839x_read_def rtsds_839x_mask_def)

lemma rtsds_930x_bounds:
  "sid > RTSDS_930X_MAX_SDS \<or> page > RTSDS_930X_MAX_PAGE \<or> reg > 31 \<Longrightarrow>
   rtsds_930x_read dev ctrl sid page reg tr = (- EINVAL, tr) \<and>
   rtsds_930x_mask dev ctrl sid page reg val msk tr = (- EINVAL, tr)"
  by (auto simp add: rtsds_930x_read_def rtsds_930x_mask_def)

lemma rtsds_931x_bounds:
  "sid > RTSDS_931X_MAX_SDS \<or> page > RTSDS_931X_MAX_PAGE \<or> reg > 31 \<Longrightarrow>
   rtsds_931x_read dev ctrl sid page reg tr = (- EINVAL, tr) \<and>
   rtsds_931x_mask dev ctrl sid page reg val msk tr = (- EINVAL, tr)"
  by (auto simp add: rtsds_931x_read_def rtsds_931x_mask_def)

text \<open>
  C2. For each of the four families, read and masked write called with a lane above the
  family's last lane, a page above its last page, or a register above 31 return
  \<open>-EINVAL\<close> and leave the trace as it was: no read or write of the window, no
  command, no sleep.
\<close>

theorem backend_out_of_range_einval:
  "(sid > RTSDS_838X_MAX_SDS \<or> page > RTSDS_838X_MAX_PAGE \<or> reg > 31 \<longrightarrow>
      rtsds_838x_read dev ctrl sid page reg tr = (- EINVAL, tr) \<and>
      rtsds_838x_mask dev ctrl sid page reg val msk tr = (- EINVAL, tr)) \<and>
   (sid > RTSDS_839X_MAX_SDS \<or> page > RTSDS_839X_MAX_PAGE \<or> reg > 31 \<longrightarrow>
      rtsds_839x_read dev ctrl sid page reg tr = (- EINVAL, tr) \<and>
      rtsds_839x_mask dev ctrl sid page reg val msk tr = (- EINVAL, tr)) \<and>
   (sid > RTSDS_930X_MAX_SDS \<or> page > RTSDS_930X_MAX_PAGE \<or> reg > 31 \<longrightarrow>
      rtsds_930x_read dev ctrl sid page reg tr = (- EINVAL, tr) \<and>
      rtsds_930x_mask dev ctrl sid page reg val msk tr = (- EINVAL, tr)) \<and>
   (sid > RTSDS_931X_MAX_SDS \<or> page > RTSDS_931X_MAX_PAGE \<or> reg > 31 \<longrightarrow>
      rtsds_931x_read dev ctrl sid page reg tr = (- EINVAL, tr) \<and>
      rtsds_931x_mask dev ctrl sid page reg val msk tr = (- EINVAL, tr))"
  using rtsds_838x_bounds [of sid page reg dev ctrl tr val msk]
    rtsds_839x_bounds [of sid page reg dev ctrl tr val msk]
    rtsds_930x_bounds [of sid page reg dev ctrl tr val msk]
    rtsds_931x_bounds [of sid page reg dev ctrl tr val msk]
  by blast

text \<open>
  Witness for C2: lane 6 on the RTL838x (lanes 0..5), page 12 on the RTL839x (pages
  0..11), register 32 on the RTL930x, lane 14 on the RTL931x (lanes 0..13), each on the
  memory-like device with an empty trace.
\<close>

theorem backend_out_of_range_einval_witness:
  "(6 :: u32) > RTSDS_838X_MAX_SDS \<and>
   rtsds_838x_read (mem_dev (\<lambda>a. 0)) (example_ctrl 0xbb00e780 (\<lambda>e. None)) 6 0 0 [] = (- 22, []) \<and>
   rtsds_838x_mask (mem_dev (\<lambda>a. 0)) (example_ctrl 0xbb00e780 (\<lambda>e. None)) 6 0 0 1 1 [] = (- 22, []) \<and>
   (12 :: u32) > RTSDS_839X_MAX_PAGE \<and>
   rtsds_839x_read (mem_dev (\<lambda>a. 0)) (example_ctrl 0xbb00a000 (\<lambda>e. None)) 0 12 0 [] = (- 22, []) \<and>
   rtsds_839x_mask (mem_dev (\<lambda>a. 0)) (example_ctrl 0xbb00a000 (\<lambda>e. None)) 0 12 0 1 1 [] = (- 22, []) \<and>
   rtsds_930x_read (mem_dev (\<lambda>a. 0)) (example_ctrl 0xbb0003b0 (\<lambda>e. None)) 0 0 32 [] = (- 22, []) \<and>
   rtsds_930x_mask (mem_dev (\<lambda>a. 0)) (example_ctrl 0xbb0003b0 (\<lambda>e. None)) 0 0 32 1 1 [] = (- 22, []) \<and>
   (14 :: u32) > RTSDS_931X_MAX_SDS \<and>
   rtsds_931x_read (mem_dev (\<lambda>a. 0)) (example_ctrl 0xbb0003b0 (\<lambda>e. None)) 14 0 0 [] = (- 22, []) \<and>
   rtsds_931x_mask (mem_dev (\<lambda>a. 0)) (example_ctrl 0xbb0003b0 (\<lambda>e. None)) 14 0 0 1 1 [] = (- 22, [])"
  using
    backend_out_of_range_einval [of 6 0 0 "mem_dev (\<lambda>a. 0)"
      "example_ctrl 0xbb00e780 (\<lambda>e. None)" "[]" 1 1]
    backend_out_of_range_einval [of 0 12 0 "mem_dev (\<lambda>a. 0)"
      "example_ctrl 0xbb00a000 (\<lambda>e. None)" "[]" 1 1]
    backend_out_of_range_einval [of 0 0 32 "mem_dev (\<lambda>a. 0)"
      "example_ctrl 0xbb0003b0 (\<lambda>e. None)" "[]" 1 1]
    backend_out_of_range_einval [of 14 0 0 "mem_dev (\<lambda>a. 0)"
      "example_ctrl 0xbb0003b0 (\<lambda>e. None)" "[]" 1 1]
  by (simp add: RTSDS_838X_MAX_SDS_def RTSDS_839X_MAX_PAGE_def RTSDS_931X_MAX_SDS_def
      EINVAL_def)

text \<open>
  C10. On the RTL839x, a lane, page and register inside the bounds for which
  \<open>rtsds_839x_offset\<close> returns its negative marker (the lane has no such page, as
  pages 4 to 7 on a lane other than 8 and 12) is neither an error nor an access: read
  returns 0, masked write returns 0, and the trace is unchanged.
\<close>

theorem rtsds_839x_no_area_noop:
  assumes "sid \<le> RTSDS_839X_MAX_SDS" and "page \<le> RTSDS_839X_MAX_PAGE" and "reg \<le> 31"
    and "sint (rtsds_839x_offset sid page reg) < 0"
  shows "rtsds_839x_read dev ctrl sid page reg tr = (0, tr) \<and>
         rtsds_839x_mask dev ctrl sid page reg val msk tr = (0, tr)"
  using assms by (simp add: rtsds_839x_read_def rtsds_839x_mask_def Let_def leD)

text \<open>Witness for C10: page 4 of lane 0, register 0.\<close>

theorem rtsds_839x_no_area_noop_witness:
  "rtsds_839x_offset 0 4 0 = - 1 \<and> sint (rtsds_839x_offset 0 4 0) < 0 \<and>
   rtsds_839x_read (mem_dev (\<lambda>a. 0)) (example_ctrl 0xbb00a000 (\<lambda>e. None)) 0 4 0 [] = (0, []) \<and>
   rtsds_839x_mask (mem_dev (\<lambda>a. 0)) (example_ctrl 0xbb00a000 (\<lambda>e. None)) 0 4 0 0x10 0xffff []
     = (0, [])"
  using rtsds_839x_no_area_noop [of 0 4 0 "mem_dev (\<lambda>a. 0)"
      "example_ctrl 0xbb00a000 (\<lambda>e. None)" "[]" "0x10" "0xffff"]
  by (simp add: rtsds_839x_offset_def RTSDS_839X_MAX_SDS_def RTSDS_839X_MAX_PAGE_def)

section \<open>Lane handle: the managed bitmask\<close>

text \<open>
  C3. For a lane (numbered below 32, where \<open>BIT\<close> is defined in C) whose bit is not
  set in the controller's \<open>sds_mask\<close>, \<open>rtsds_mask\<close> and \<open>rtsds_write\<close> return
  \<open>-EACCES\<close> whatever the backend is, and the trace is unchanged: the family's mask
  function is not called.
\<close>

theorem rtsds_mask_unmanaged_eacces:
  assumes "sds_mask (macro_ctrl macro) AND BIT (macro_sid macro) = 0"
    and "macro_sid macro < 32"
  shows "rtsds_mask conf dev macro page reg val msk tr = (- EACCES, tr) \<and>
         rtsds_write conf dev macro page reg val tr = (- EACCES, tr)"
  using assms by (simp add: rtsds_mask_def rtsds_write_def)

text \<open>
  Witness for C3: lane 2 of a controller that manages lanes 0 and 1 only, with the
  RTL838x backend, whose mask function would have read and written the window.
\<close>

theorem rtsds_mask_unmanaged_eacces_witness:
  "sds_mask ((example_ctrl 0xbb00e780 (\<lambda>e. None))\<lparr>sds_mask := 3\<rparr>) AND BIT 2 = 0 \<and>
   (2 :: u32) < 32 \<and>
   rtsds_mask rtsds_838x_conf (mem_dev (\<lambda>a. 0))
     \<lparr> macro_ctrl = (example_ctrl 0xbb00e780 (\<lambda>e. None))\<lparr>sds_mask := 3\<rparr>, macro_sid = 2 \<rparr>
     0 3 0x10 0xff [] = (- 13, []) \<and>
   rtsds_write rtsds_838x_conf (mem_dev (\<lambda>a. 0))
     \<lparr> macro_ctrl = (example_ctrl 0xbb00e780 (\<lambda>e. None))\<lparr>sds_mask := 3\<rparr>, macro_sid = 2 \<rparr>
     0 3 0x10 [] = (- 13, []) \<and>
   snd (rtsds_838x_mask (mem_dev (\<lambda>a. 0))
     ((example_ctrl 0xbb00e780 (\<lambda>e. None))\<lparr>sds_mask := 3\<rparr>) 2 0 3 0x10 0xff []) \<noteq> []"
  using rtsds_mask_unmanaged_eacces [of
      "\<lparr> macro_ctrl = (example_ctrl 0xbb00e780 (\<lambda>e. None))\<lparr>sds_mask := 3\<rparr>, macro_sid = 2 \<rparr>"
      rtsds_838x_conf "mem_dev (\<lambda>a. 0)" 0 3 "0x10" "0xff" "[]"]
  by (simp add: example_ctrl_def BIT_def EACCES_def rtsds_838x_mask_def
      RTSDS_838X_MAX_SDS_def RTSDS_838X_MAX_PAGE_def Let_def iomask32_def ioread32_def
      iowrite32_def)

section \<open>Command bus: the busy bit that never clears\<close>

declare poll_busy.simps [simp del]

lemma poll_busy_stuck:
  assumes busy: "\<forall>t. dev t addr AND 1 \<noteq> 0"
  shows "n < 2 ^ 32 - 1 \<Longrightarrow>
    poll_busy dev addr (of_nat (Suc n)) tr =
      (0, tr @ concat (replicate n [IoRead addr, USleep 50 60]))"
proof (induction n arbitrary: tr)
  case 0
  show ?case
    by (subst poll_busy.simps) simp
next
  case (Suc n)
  have nz: "(of_nat (Suc n) :: 32 word) \<noteq> 0"
    using Suc.prems by (intro of_nat_neq_0) simp_all
  have dec: "(of_nat (Suc (Suc n)) :: 32 word) - 1 = of_nat (Suc n)"
    by simp
  have "poll_busy dev addr (of_nat (Suc (Suc n))) tr =
        poll_busy dev addr (of_nat (Suc n)) (tr @ [IoRead addr, USleep 50 60])"
    apply (subst poll_busy.simps)
    apply (simp only: dec)
    using nz busy apply (simp add: ioread32_def usleep_range_def del: of_nat_Suc)
    done
  also have "\<dots> = (0, (tr @ [IoRead addr, USleep 50 60]) @
                       concat (replicate n [IoRead addr, USleep 50 60]))"
    using Suc.prems by (intro Suc.IH) simp
  finally show ?case
    by simp
qed

lemma poll_busy_100:
  assumes busy: "\<forall>t. dev t addr AND 1 \<noteq> 0"
  shows "poll_busy dev addr 100 tr =
           (0, tr @ concat (replicate 99 [IoRead addr, USleep 50 60]))"
  using poll_busy_stuck [where dev = dev and addr = addr and n = 99 and tr = tr, OF busy]
  by simp

lemma rtsds_930x_read_stuck:
  assumes busy: "\<forall>t. dev t (base ctrl) AND 1 \<noteq> 0"
    and "sid \<le> RTSDS_930X_MAX_SDS" and "page \<le> RTSDS_930X_MAX_PAGE" and "reg \<le> 31"
  shows "rtsds_930x_read dev ctrl sid page reg tr =
     (- EIO, tr @ [IoWrite (base ctrl)
                     (push_bit 2 sid OR push_bit 7 page OR push_bit 13 reg OR 1)]
                @ concat (replicate 99 [IoRead (base ctrl), USleep 50 60]))"
  using assms(2-)
  by (simp add: rtsds_930x_read_def Let_def leD iowrite32_def
      poll_busy_100 [where dev = dev and addr = "base ctrl", OF busy])

lemma rtsds_930x_mask_stuck:
  assumes busy: "\<forall>t. dev t (base ctrl) AND 1 \<noteq> 0"
    and "sid \<le> RTSDS_930X_MAX_SDS" and "page \<le> RTSDS_930X_MAX_PAGE" and "reg \<le> 31"
  shows "rtsds_930x_mask dev ctrl sid page reg val msk tr =
     (- EIO, tr @ (if msk \<noteq> 0xffff
                   then [IoWrite (base ctrl)
                           (push_bit 2 sid OR push_bit 7 page OR push_bit 13 reg OR 1)]
                   else [IoWrite (base ctrl + 4) val,
                         IoWrite (base ctrl)
                           (push_bit 2 sid OR push_bit 7 page OR push_bit 13 reg OR 3)])
                @ concat (replicate 99 [IoRead (base ctrl), USleep 50 60]))"
  using assms(2-)
  by (simp add: rtsds_930x_mask_def Let_def leD iowrite32_def EIO_def
      rtsds_930x_read_stuck [where dev = dev and ctrl = ctrl, OF assms]
      poll_busy_100 [where dev = dev and addr = "base ctrl", OF busy])

lemma count_polls:
  "length (filter (\<lambda>e. e = IoRead a) (concat (replicate n [IoRead a, USleep lo hi]))) = n"
  by (induction n) simp_all

lemma busy_dev_busy: "\<forall>t. busy_dev t addr AND 1 \<noteq> 0"
  by (simp add: busy_dev_def)

text \<open>
  C5 (as amended). On the RTL930x, if the busy bit of the command register never clears,
  a read and a masked write of a lane, page and register inside the bounds poll the
  command register exactly 99 times, each poll followed by a sleep of 50 to 60
  microseconds (the hundredth decrement of the counter ends the loop without a poll),
  then return \<open>-EIO\<close>, and nothing follows the last sleep. The read has written its
  command and does not read the data register. The masked write with a mask other than
  0xffff fails in its initial read: it writes neither the data register nor its own
  command. With the mask 0xffff it has written the data register and its command before
  polling.
\<close>

theorem rtsds_930x_busy_timeout:
  assumes "\<forall>t. dev t (base ctrl) AND 1 \<noteq> 0"
    and "sid \<le> RTSDS_930X_MAX_SDS" and "page \<le> RTSDS_930X_MAX_PAGE" and "reg \<le> 31"
  shows "rtsds_930x_read dev ctrl sid page reg tr =
           (- EIO, tr @ [IoWrite (base ctrl)
                           (push_bit 2 sid OR push_bit 7 page OR push_bit 13 reg OR 1)]
                      @ concat (replicate 99 [IoRead (base ctrl), USleep 50 60])) \<and>
         rtsds_930x_mask dev ctrl sid page reg val msk tr =
           (- EIO, tr @ (if msk \<noteq> 0xffff
                         then [IoWrite (base ctrl)
                                 (push_bit 2 sid OR push_bit 7 page OR push_bit 13 reg OR 1)]
                         else [IoWrite (base ctrl + 4) val,
                               IoWrite (base ctrl)
                                 (push_bit 2 sid OR push_bit 7 page OR push_bit 13 reg OR 3)])
                      @ concat (replicate 99 [IoRead (base ctrl), USleep 50 60]))"
  using rtsds_930x_read_stuck [where dev = dev and ctrl = ctrl, OF assms]
    rtsds_930x_mask_stuck [where dev = dev and ctrl = ctrl, OF assms]
  by simp

text \<open>
  Witness for C5: lane 3, page 2, register 1 on \<open>busy_dev\<close>, with the command
  register at 0xbb0003b0; the masked write once with mask 0x00ff and once with 0xffff.
\<close>

theorem rtsds_930x_busy_timeout_witness:
  "(\<forall>t. busy_dev t (base (example_ctrl 0xbb0003b0 (\<lambda>e. None))) AND 1 \<noteq> 0) \<and>
   rtsds_930x_read busy_dev (example_ctrl 0xbb0003b0 (\<lambda>e. None)) 3 2 1 [] =
     (- 5, IoWrite 0xbb0003b0 0x210d
           # concat (replicate 99 [IoRead 0xbb0003b0, USleep 50 60])) \<and>
   rtsds_930x_mask busy_dev (example_ctrl 0xbb0003b0 (\<lambda>e. None)) 3 2 1 0x10 0x00ff [] =
     (- 5, IoWrite 0xbb0003b0 0x210d
           # concat (replicate 99 [IoRead 0xbb0003b0, USleep 50 60])) \<and>
   rtsds_930x_mask busy_dev (example_ctrl 0xbb0003b0 (\<lambda>e. None)) 3 2 1 0x10 0xffff [] =
     (- 5, IoWrite 0xbb0003b4 0x10 # IoWrite 0xbb0003b0 0x210f
           # concat (replicate 99 [IoRead 0xbb0003b0, USleep 50 60]))"
  using
    rtsds_930x_busy_timeout [of busy_dev "example_ctrl 0xbb0003b0 (\<lambda>e. None)" 3 2 1
      "[]" "0x10" "0x00ff"]
    rtsds_930x_busy_timeout [of busy_dev "example_ctrl 0xbb0003b0 (\<lambda>e. None)" 3 2 1
      "[]" "0x10" "0xffff"]
  by (simp add: busy_dev_def example_ctrl_def RTSDS_930X_MAX_SDS_def
      RTSDS_930X_MAX_PAGE_def EIO_def)

text \<open>
  Counterexample to C5 as stated (100 polls): with the busy bit stuck, the read and the
  masked write of lane 0, page 0, register 0 each read the command register 99 times.
\<close>

theorem rtsds_930x_polls_counterexample:
  "length (filter (\<lambda>e. e = IoRead 0xbb0003b0)
     (snd (rtsds_930x_read busy_dev (example_ctrl 0xbb0003b0 (\<lambda>e. None)) 0 0 0 []))) = 99 \<and>
   length (filter (\<lambda>e. e = IoRead 0xbb0003b0)
     (snd (rtsds_930x_mask busy_dev (example_ctrl 0xbb0003b0 (\<lambda>e. None)) 0 0 0 0 0xffff [])))
     = 99 \<and>
   length (filter (\<lambda>e. e = IoRead 0xbb0003b0)
     (snd (rtsds_930x_read busy_dev (example_ctrl 0xbb0003b0 (\<lambda>e. None)) 0 0 0 []))) \<noteq> 100"
proof -
  have b: "\<forall>t. busy_dev t (base (example_ctrl 0xbb0003b0 (\<lambda>e. None))) AND 1 \<noteq> 0"
    by (rule busy_dev_busy)
  have r: "(0 :: u32) \<le> RTSDS_930X_MAX_SDS" "(0 :: u32) \<le> RTSDS_930X_MAX_PAGE"
    "(0 :: u32) \<le> 31"
    by simp_all
  have a: "base (example_ctrl 0xbb0003b0 (\<lambda>e. None)) = 0xbb0003b0"
    by (simp add: example_ctrl_def)
  show ?thesis
    unfolding
      rtsds_930x_read_stuck [where dev = busy_dev
        and ctrl = "example_ctrl 0xbb0003b0 (\<lambda>e. None)", OF b r]
      rtsds_930x_mask_stuck [where dev = busy_dev
        and ctrl = "example_ctrl 0xbb0003b0 (\<lambda>e. None)", OF b r] a
    by (simp add: count_polls)
qed

section \<open>RTL839x: two registers in one 32 bit word\<close>

lemma mem_dev_Nil [simp]: "mem_dev init [] = init"
  by (simp add: mem_dev_def)

lemma mem_dev_Cons [simp]:
  "mem_dev init (e # es) = mem_dev (case e of IoWrite a v \<Rightarrow> init(a := v) | _ \<Rightarrow> init) es"
  by (simp add: mem_dev_def)

lemma mem_dev_append [simp]: "mem_dev init (tr @ es) = mem_dev (mem_dev init tr) es"
  by (simp add: mem_dev_def)

lemma rtsds_839x_offset_pair:
  "rtsds_839x_offset sid page (reg XOR 1) = rtsds_839x_offset sid page reg"
proof -
  have "(reg XOR 1) AND 0xfe = reg AND 0xfe"
  proof (rule bit_word_eqI)
    fix n
    assume "n < LENGTH(32)"
    have fe: "bit (0xfe :: 32 word) n \<longleftrightarrow> 1 \<le> n \<and> n < 8"
    proof -
      have "(0xfe :: 32 word) = push_bit 1 (mask 7)"
        by (simp add: mask_eq_exp_minus_1)
      then show ?thesis
        by (simp only: bit_push_bit_iff bit_mask_iff) (auto simp: possible_bit_def)
    qed
    show "bit ((reg XOR 1) AND 0xfe) n = bit (reg AND 0xfe) n"
      using fe by (auto simp add: bit_and_iff bit_xor_iff bit_1_iff)
  qed
  then show ?thesis
    by (simp add: rtsds_839x_offset_def)
qed

lemma shift_bit0: "push_bit 4 reg AND (0x10 :: 32 word) = (if bit reg 0 then 0x10 else 0)"
proof -
  have c: "(0x10 :: 32 word) = push_bit 4 1"
    by simp
  have "push_bit 4 reg AND push_bit 4 1 = push_bit 4 (reg AND 1)"
    by (simp add: push_bit_and)
  also have "reg AND 1 = (if bit reg 0 then 1 else 0)"
    by (simp add: and_one_eq mod_2_eq_odd bit_0)
  finally show ?thesis
    unfolding c by (simp split: if_splits)
qed

lemma and1_bit0: "(reg AND 1 \<noteq> 0) = bit (reg :: 32 word) 0"
  by (simp add: and_one_eq mod_2_eq_odd bit_0)

lemma xor1_bit0: "bit (reg XOR 1 :: 32 word) 0 = (\<not> bit reg 0)"
  by (simp add: bit_xor_iff bit_1_iff)

lemma low_half_kept:
  "((old AND NOT (push_bit 16 msk)) OR push_bit 16 val) AND 0xffff = old AND (0xffff :: 32 word)"
proof -
  have m: "(0xffff :: 32 word) = mask 16"
    by (simp add: mask_eq_exp_minus_1)
  show ?thesis
    unfolding m
    by (rule bit_word_eqI)
      (auto simp add: bit_and_iff bit_or_iff bit_not_iff bit_push_bit_iff bit_mask_iff)
qed

lemma word_le_ffff_bit: "(w :: 32 word) \<le> 0xffff \<Longrightarrow> bit w n \<Longrightarrow> n < 16"
proof -
  assume a: "w \<le> 0xffff" and n: "bit w n"
  have "w < 2 ^ 16"
    using a by (simp add: word_less_nat_alt word_le_nat_alt)
  then have "w AND mask 16 = w"
    by (rule less_mask_eq)
  with n have "bit (w AND mask 16) n"
    by simp
  then show ?thesis
    by (simp only: bit_and_iff bit_mask_iff)
qed

lemma high_half_kept:
  assumes "msk \<le> 0xffff" "val \<le> 0xffff"
  shows "drop_bit 16 ((old AND NOT msk) OR val) AND 0xffff
         = drop_bit 16 old AND (0xffff :: 32 word)"
proof -
  have m: "(0xffff :: 32 word) = mask 16"
    by (simp add: mask_eq_exp_minus_1)
  show ?thesis
    unfolding m
    by (rule bit_word_eqI)
      (auto simp add: bit_and_iff bit_or_iff bit_not_iff bit_drop_bit_eq bit_mask_iff
        dest: word_le_ffff_bit [OF assms(1)] word_le_ffff_bit [OF assms(2)])
qed

lemma rtsds_839x_read_value:
  assumes "\<not> (sid > RTSDS_839X_MAX_SDS \<or> page > RTSDS_839X_MAX_PAGE \<or> r > 31)"
    and "\<not> sint (rtsds_839x_offset sid page r) < 0"
  shows "fst (rtsds_839x_read (mem_dev m) ctrl sid page r T) =
           drop_bit (unat (push_bit 4 r AND 0x10))
             (mem_dev m T (base ctrl + rtsds_839x_offset sid page r)) AND 0xffff"
  using assms
  by (simp add: rtsds_839x_read_def Let_def ioread32_def split: prod.splits)

lemma rtsds_839x_mask_memory:
  assumes "\<not> (sid > RTSDS_839X_MAX_SDS \<or> page > RTSDS_839X_MAX_PAGE \<or> reg > 31)"
    and "\<not> sint (rtsds_839x_offset sid page reg) < 0"
  shows "mem_dev m (snd (rtsds_839x_mask (mem_dev m) ctrl sid page reg val msk T)) =
     (mem_dev m T)(base ctrl + rtsds_839x_offset sid page reg :=
        (let oldval = mem_dev m T (base ctrl + rtsds_839x_offset sid page reg)
         in if reg AND 1 \<noteq> 0
            then (oldval AND NOT (push_bit 16 msk)) OR push_bit 16 val
            else (oldval AND NOT msk) OR val))"
  using assms
  by (simp add: rtsds_839x_mask_def Let_def ioread32_def iowrite32_def split: prod.splits)

lemma rtsds_839x_mask_noop:
  assumes "(sid > RTSDS_839X_MAX_SDS \<or> page > RTSDS_839X_MAX_PAGE \<or> reg > 31)
     \<or> sint (rtsds_839x_offset sid page reg) < 0"
  shows "snd (rtsds_839x_mask dev ctrl sid page reg val msk T) = T"
  using assms by (auto simp add: rtsds_839x_mask_def Let_def)

text \<open>
  C6. On the RTL839x, registers \<open>reg\<close> and \<open>reg XOR 1\<close> of a lane and page share one 32
  bit word of the window. On a window that behaves like memory, a masked write to \<open>reg\<close>
  leaves what a read of the paired register \<open>reg XOR 1\<close> returns unchanged, whenever
  mask and value do not reach into the paired half: for an odd \<open>reg\<close> (upper half) the
  code shifts both by 16, so every mask and value qualify; for an even \<open>reg\<close> (lower
  half) mask and value have to fit 16 bits.
\<close>

theorem rtsds_839x_mask_keeps_paired_register:
  assumes mv: "reg AND 1 = 0 \<longrightarrow> msk \<le> 0xffff \<and> val \<le> 0xffff"
  shows "fst (rtsds_839x_read (mem_dev m) ctrl sid page (reg XOR 1)
                (snd (rtsds_839x_mask (mem_dev m) ctrl sid page reg val msk tr)))
       = fst (rtsds_839x_read (mem_dev m) ctrl sid page (reg XOR 1) tr)"
    (is "fst (rtsds_839x_read _ _ _ _ ?r ?T) = _")
proof -
  let ?a = "base ctrl + rtsds_839x_offset sid page reg"
  let ?old = "mem_dev m tr ?a"
  consider (noop) "(sid > RTSDS_839X_MAX_SDS \<or> page > RTSDS_839X_MAX_PAGE \<or> reg > 31)
                     \<or> sint (rtsds_839x_offset sid page reg) < 0"
    | (rbad) "sid > RTSDS_839X_MAX_SDS \<or> page > RTSDS_839X_MAX_PAGE \<or> ?r > 31"
    | (ok) "\<not> (sid > RTSDS_839X_MAX_SDS \<or> page > RTSDS_839X_MAX_PAGE \<or> reg > 31)"
           "\<not> sint (rtsds_839x_offset sid page reg) < 0"
           "\<not> (sid > RTSDS_839X_MAX_SDS \<or> page > RTSDS_839X_MAX_PAGE \<or> ?r > 31)"
    by blast
  then show ?thesis
  proof cases
    case noop
    then show ?thesis
      by (simp only: rtsds_839x_mask_noop)
  next
    case rbad
    then show ?thesis
      by (auto simp add: rtsds_839x_read_def)
  next
    case ok
    have offs: "\<not> sint (rtsds_839x_offset sid page ?r) < 0"
      using ok(2) unfolding rtsds_839x_offset_pair .
    have after: "fst (rtsds_839x_read (mem_dev m) ctrl sid page ?r ?T) =
        drop_bit (unat (push_bit 4 ?r AND 0x10)) (mem_dev m ?T ?a) AND 0xffff"
      using rtsds_839x_read_value [OF ok(3) offs] by (simp only: rtsds_839x_offset_pair)
    have before: "fst (rtsds_839x_read (mem_dev m) ctrl sid page ?r tr) =
        drop_bit (unat (push_bit 4 ?r AND 0x10)) ?old AND 0xffff"
      using rtsds_839x_read_value [OF ok(3) offs] by (simp only: rtsds_839x_offset_pair)
    have mem: "mem_dev m ?T ?a =
        (if reg AND 1 \<noteq> 0 then (?old AND NOT (push_bit 16 msk)) OR push_bit 16 val
         else (?old AND NOT msk) OR val)"
      by (simp only: rtsds_839x_mask_memory [OF ok(1,2)] Let_def fun_upd_same)
    show ?thesis
    proof (cases "reg AND 1 = 0")
      case True
      then have b: "\<not> bit reg 0"
        using and1_bit0 [of reg] by simp
      from True mv have "msk \<le> 0xffff" "val \<le> 0xffff"
        by auto
      note hh = high_half_kept [OF this, of ?old]
      have sh: "unat (push_bit 4 ?r AND 0x10) = 16"
        by (simp only: shift_bit0 xor1_bit0 b) simp
      show ?thesis
        unfolding after before mem sh using True hh by simp
    next
      case False
      then have b: "bit reg 0"
        using and1_bit0 [of reg] by simp
      have sh: "unat (push_bit 4 ?r AND 0x10) = 0"
        by (simp only: shift_bit0 xor1_bit0 b) simp
      show ?thesis
        unfolding after before mem sh using False low_half_kept [of ?old msk val] by simp
    qed
  qed
qed

text \<open>
  Witness for C6: lane 3, page 1, a window whose words all hold 0x12345678. A masked
  write to register 6 (lower half) with value 0xabcd and mask 0xff0f changes register 6
  and leaves register 7 at 0x1234.
\<close>

theorem rtsds_839x_mask_keeps_paired_register_witness:
  "(6 :: u32) AND 1 = 0 \<and> (0xff0f :: u32) \<le> 0xffff \<and> (0xabcd :: u32) \<le> 0xffff \<and>
   (6 :: u32) XOR 1 = 7 \<and>
   fst (rtsds_839x_read (mem_dev (\<lambda>a. 0x12345678)) (example_ctrl 0xbb00a000 (\<lambda>e. None)) 3 1 7
          (snd (rtsds_839x_mask (mem_dev (\<lambda>a. 0x12345678))
                  (example_ctrl 0xbb00a000 (\<lambda>e. None)) 3 1 6 0xabcd 0xff0f []))) = 0x1234 \<and>
   fst (rtsds_839x_read (mem_dev (\<lambda>a. 0x12345678)) (example_ctrl 0xbb00a000 (\<lambda>e. None)) 3 1 7
          []) = 0x1234 \<and>
   fst (rtsds_839x_read (mem_dev (\<lambda>a. 0x12345678)) (example_ctrl 0xbb00a000 (\<lambda>e. None)) 3 1 6
          (snd (rtsds_839x_mask (mem_dev (\<lambda>a. 0x12345678))
                  (example_ctrl 0xbb00a000 (\<lambda>e. None)) 3 1 6 0xabcd 0xff0f []))) = 0xabfd"
  using rtsds_839x_mask_keeps_paired_register [of 6 "0xff0f" "0xabcd" "\<lambda>a. 0x12345678"
      "example_ctrl 0xbb00a000 (\<lambda>e. None)" 3 1 "[]"]
  by (simp add: rtsds_839x_read_def rtsds_839x_mask_def Let_def ioread32_def iowrite32_def
      rtsds_839x_offset_def RTSDS_839X_MAX_SDS_def RTSDS_839X_MAX_PAGE_def example_ctrl_def)

section \<open>Sequencer: delays, order and abort\<close>

lemma delay_after_Nil [simp]: "delay_after sid d [] = d"
  by (simp add: delay_after_def)

lemma delay_after_Cons:
  "delay_after sid d (s # ss) =
     delay_after sid
       (if seq_action s = RTSDS_SEQ_WAIT \<and> seq_applies s sid then ucast (seq_val s) else d) ss"
  by (simp add: delay_after_def Let_def)

lemma delay_after_mask:
  "seq_action s = RTSDS_SEQ_MASK \<Longrightarrow> delay_after sid d [s] = d"
  by (simp add: delay_after_def Let_def RTSDS_SEQ_MASK_def RTSDS_SEQ_WAIT_def)

lemma EIO_neq_0: "EIO \<noteq> 0"
  by (simp add: EIO_def)

text \<open>One iteration of the loop, with the sleep written as \<open>seq_sleep\<close>.\<close>

lemma run_event_loop_step:
  "seq_action s \<noteq> RTSDS_SEQ_STOP \<Longrightarrow>
   run_event_loop conf dev ctrl sid d (s # ss) tr =
     (let d1 = delay_after sid d [s]; tr1 = tr @ seq_sleep d1
      in if seq_action s = RTSDS_SEQ_MASK \<and> seq_applies s sid
         then (let (ret, tr2) = conf_mask conf dev ctrl sid (ucast (seq_page s))
                                 (ucast (seq_reg s)) (ucast (seq_val s)) (ucast (seq_mask s)) tr1
               in if ret \<noteq> 0 then (- EIO, tr2)
                  else run_event_loop conf dev ctrl sid d1 ss tr2)
         else run_event_loop conf dev ctrl sid d1 ss tr1)"
  by (simp add: delay_after_Cons seq_sleep_def usleep_range_def Let_def)

lemma step_trace_0:
  "step_trace conf dev ctrl sid d (s # ss) 0 t =
     (let t1 = t @ seq_sleep (delay_after sid d [s])
      in if seq_action s = RTSDS_SEQ_MASK \<and> seq_applies s sid
         then snd (conf_mask conf dev ctrl sid (ucast (seq_page s)) (ucast (seq_reg s))
                     (ucast (seq_val s)) (ucast (seq_mask s)) t1)
         else t1)"
  by (simp add: step_trace_def Let_def)

lemma step_trace_Suc:
  "step_trace conf dev ctrl sid d (s # ss) (Suc k) =
   step_trace conf dev ctrl sid (delay_after sid d [s]) ss k"
  by (rule ext) (simp add: step_trace_def Let_def delay_after_Cons)

lemma fold_step_trace_Cons:
  "fold (step_trace conf dev ctrl sid d (s # ss)) [0..<length (s # ss)] t =
   fold (step_trace conf dev ctrl sid (delay_after sid d [s]) ss) [0..<length ss]
     (step_trace conf dev ctrl sid d (s # ss) 0 t)"
proof -
  have "[0..<length (s # ss)] = 0 # map Suc [0..<length ss]"
    by (simp add: upt_conv_Cons map_Suc_upt del: upt_Suc)
  then show ?thesis
    by (simp add: fold_map o_def step_trace_Suc del: upt_Suc)
qed

lemma run_event_loop_trace:
  assumes "\<forall>s\<in>set ss. seq_action s \<noteq> RTSDS_SEQ_STOP"
    and "rest = [] \<or> seq_action (hd rest) = RTSDS_SEQ_STOP"
    and "fst (run_event_loop conf dev ctrl sid d (ss @ rest) tr) = 0"
  shows "snd (run_event_loop conf dev ctrl sid d (ss @ rest) tr) =
           fold (step_trace conf dev ctrl sid d ss) [0..<length ss] tr"
  using assms
proof (induction ss arbitrary: d tr)
  case Nil
  then show ?case
    by (cases rest) auto
next
  case (Cons s ss)
  let ?d1 = "delay_after sid d [s]"
  have ns: "seq_action s \<noteq> RTSDS_SEQ_STOP"
    using Cons.prems(1) by simp
  show ?case
  proof (cases "seq_action s = RTSDS_SEQ_MASK \<and> seq_applies s sid")
    case True
    obtain ret tr2 where m:
      "conf_mask conf dev ctrl sid (ucast (seq_page s)) (ucast (seq_reg s))
         (ucast (seq_val s)) (ucast (seq_mask s)) (tr @ seq_sleep ?d1) = (ret, tr2)"
      by (cases "conf_mask conf dev ctrl sid (ucast (seq_page s)) (ucast (seq_reg s))
                   (ucast (seq_val s)) (ucast (seq_mask s)) (tr @ seq_sleep ?d1)") auto
    have r: "ret = 0"
    proof (rule ccontr)
      assume "ret \<noteq> 0"
      then have "run_event_loop conf dev ctrl sid d ((s # ss) @ rest) tr = (- EIO, tr2)"
        using run_event_loop_step [OF ns, of conf dev ctrl sid d "ss @ rest" tr] True m
        by (simp add: Let_def)
      with Cons.prems(3) show False
        by (simp add: EIO_neq_0 del: run_event_loop.simps)
    qed
    have eq: "run_event_loop conf dev ctrl sid d ((s # ss) @ rest) tr =
          run_event_loop conf dev ctrl sid ?d1 (ss @ rest) tr2"
      using run_event_loop_step [OF ns, of conf dev ctrl sid d "ss @ rest" tr] True m r
      by (simp add: Let_def)
    have st: "step_trace conf dev ctrl sid d (s # ss) 0 tr = tr2"
      using True m by (simp add: step_trace_0 Let_def)
    have "snd (run_event_loop conf dev ctrl sid ?d1 (ss @ rest) tr2) =
            fold (step_trace conf dev ctrl sid ?d1 ss) [0..<length ss] tr2"
      using Cons.prems eq by (intro Cons.IH) (simp_all del: run_event_loop.simps)
    then show ?thesis
      by (simp only: eq fold_step_trace_Cons st)
  next
    case False
    have eq: "run_event_loop conf dev ctrl sid d ((s # ss) @ rest) tr =
          run_event_loop conf dev ctrl sid ?d1 (ss @ rest) (tr @ seq_sleep ?d1)"
      using run_event_loop_step [OF ns, of conf dev ctrl sid d "ss @ rest" tr] False
      by (simp add: Let_def)
    have st: "step_trace conf dev ctrl sid d (s # ss) 0 tr = tr @ seq_sleep ?d1"
      using False by (auto simp add: step_trace_0 Let_def)
    have "snd (run_event_loop conf dev ctrl sid ?d1 (ss @ rest) (tr @ seq_sleep ?d1)) =
            fold (step_trace conf dev ctrl sid ?d1 ss) [0..<length ss] (tr @ seq_sleep ?d1)"
      using Cons.prems eq by (intro Cons.IH) (simp_all del: run_event_loop.simps)
    then show ?thesis
      by (simp only: eq fold_step_trace_Cons st)
  qed
qed

lemma run_event_loop_ok:
  assumes "\<forall>s\<in>set ss. seq_action s \<noteq> RTSDS_SEQ_STOP"
    and "rest = [] \<or> seq_action (hd rest) = RTSDS_SEQ_STOP"
    and "\<forall>s\<in>set ss. seq_action s = RTSDS_SEQ_MASK \<and> seq_applies s sid \<longrightarrow>
           (\<forall>t. fst (conf_mask conf dev ctrl sid (ucast (seq_page s)) (ucast (seq_reg s))
                        (ucast (seq_val s)) (ucast (seq_mask s)) t) = 0)"
  shows "fst (run_event_loop conf dev ctrl sid d (ss @ rest) tr) = 0"
  using assms
proof (induction ss arbitrary: d tr)
  case Nil
  then show ?case
    by (cases rest) auto
next
  case (Cons s ss)
  let ?d1 = "delay_after sid d [s]"
  have ns: "seq_action s \<noteq> RTSDS_SEQ_STOP"
    using Cons.prems(1) by simp
  have IH: "fst (run_event_loop conf dev ctrl sid ?d1 (ss @ rest) t) = 0" for t
    using Cons.prems by (intro Cons.IH) auto
  show ?case
  proof (cases "seq_action s = RTSDS_SEQ_MASK \<and> seq_applies s sid")
    case True
    obtain ret tr2 where m:
      "conf_mask conf dev ctrl sid (ucast (seq_page s)) (ucast (seq_reg s))
         (ucast (seq_val s)) (ucast (seq_mask s)) (tr @ seq_sleep ?d1) = (ret, tr2)"
      by (cases "conf_mask conf dev ctrl sid (ucast (seq_page s)) (ucast (seq_reg s))
                   (ucast (seq_val s)) (ucast (seq_mask s)) (tr @ seq_sleep ?d1)") auto
    from Cons.prems(3) True
    have "fst (conf_mask conf dev ctrl sid (ucast (seq_page s)) (ucast (seq_reg s))
                 (ucast (seq_val s)) (ucast (seq_mask s)) (tr @ seq_sleep ?d1)) = 0"
      by auto
    with m have r: "ret = 0"
      by simp
    have "run_event_loop conf dev ctrl sid d ((s # ss) @ rest) tr =
          run_event_loop conf dev ctrl sid ?d1 (ss @ rest) tr2"
      using run_event_loop_step [OF ns, of conf dev ctrl sid d "ss @ rest" tr] True m r
      by (simp add: Let_def)
    then show ?thesis
      using IH [of tr2] by (simp del: run_event_loop.simps)
  next
    case False
    have "run_event_loop conf dev ctrl sid d ((s # ss) @ rest) tr =
          run_event_loop conf dev ctrl sid ?d1 (ss @ rest) (tr @ seq_sleep ?d1)"
      using run_event_loop_step [OF ns, of conf dev ctrl sid d "ss @ rest" tr] False
      by (simp add: Let_def)
    then show ?thesis
      using IH [of "tr @ seq_sleep ?d1"] by (simp del: run_event_loop.simps)
  qed
qed

lemma run_event_loop_abort:
  assumes "\<forall>x\<in>set pre. seq_action x \<noteq> RTSDS_SEQ_STOP"
    and "run_event_loop conf dev ctrl sid d pre tr = (0, tr1)"
    and "seq_action s = RTSDS_SEQ_MASK" and "seq_applies s sid"
    and "conf_mask conf dev ctrl sid (ucast (seq_page s)) (ucast (seq_reg s))
           (ucast (seq_val s)) (ucast (seq_mask s)) (tr1 @ seq_sleep (delay_after sid d pre))
         = (ret, tr2)"
    and "ret \<noteq> 0"
  shows "run_event_loop conf dev ctrl sid d (pre @ s # post) tr = (- EIO, tr2)"
  using assms(1,2,5)
proof (induction pre arbitrary: d tr)
  case Nil
  have ns: "seq_action s \<noteq> RTSDS_SEQ_STOP"
    using assms(3) by (simp add: RTSDS_SEQ_MASK_def RTSDS_SEQ_STOP_def)
  from Nil have "tr1 = tr"
    by simp
  with Nil.prems(3) assms(3,4,6) show ?case
    using run_event_loop_step [OF ns, of conf dev ctrl sid d post tr]
    by (simp add: Let_def delay_after_mask)
next
  case (Cons x xs)
  let ?d1 = "delay_after sid d [x]"
  have nx: "seq_action x \<noteq> RTSDS_SEQ_STOP"
    using Cons.prems(1) by simp
  have d: "delay_after sid d (x # xs) = delay_after sid ?d1 xs"
    by (simp add: delay_after_Cons)
  show ?case
  proof (cases "seq_action x = RTSDS_SEQ_MASK \<and> seq_applies x sid")
    case True
    obtain r t2 where m:
      "conf_mask conf dev ctrl sid (ucast (seq_page x)) (ucast (seq_reg x))
         (ucast (seq_val x)) (ucast (seq_mask x)) (tr @ seq_sleep ?d1) = (r, t2)"
      by (cases "conf_mask conf dev ctrl sid (ucast (seq_page x)) (ucast (seq_reg x))
                   (ucast (seq_val x)) (ucast (seq_mask x)) (tr @ seq_sleep ?d1)") auto
    have r0: "r = 0"
    proof (rule ccontr)
      assume "r \<noteq> 0"
      then have "run_event_loop conf dev ctrl sid d (x # xs) tr = (- EIO, t2)"
        using run_event_loop_step [OF nx, of conf dev ctrl sid d xs tr] True m
        by (simp add: Let_def)
      with Cons.prems(2) show False
        by (simp add: EIO_neq_0 del: run_event_loop.simps)
    qed
    have 1: "run_event_loop conf dev ctrl sid ?d1 xs t2 = (0, tr1)"
      using run_event_loop_step [OF nx, of conf dev ctrl sid d xs tr] True m r0 Cons.prems(2)
      by (simp add: Let_def)
    have "run_event_loop conf dev ctrl sid ?d1 (xs @ s # post) t2 = (- EIO, tr2)"
      using Cons.prems(1,3) 1 by (intro Cons.IH) (simp_all add: d)
    then show ?thesis
      using run_event_loop_step [OF nx, of conf dev ctrl sid d "xs @ s # post" tr] True m r0
      by (simp add: Let_def)
  next
    case False
    have 1: "run_event_loop conf dev ctrl sid ?d1 xs (tr @ seq_sleep ?d1) = (0, tr1)"
      using run_event_loop_step [OF nx, of conf dev ctrl sid d xs tr] False Cons.prems(2)
      by (simp add: Let_def)
    have "run_event_loop conf dev ctrl sid ?d1 (xs @ s # post) (tr @ seq_sleep ?d1)
          = (- EIO, tr2)"
      using Cons.prems(1,3) 1 by (intro Cons.IH) (simp_all add: d)
    then show ?thesis
      using run_event_loop_step [OF nx, of conf dev ctrl sid d "xs @ s # post" tr] False
      by (simp add: Let_def)
  qed
qed

text \<open>
  C1 (as amended). For an event \<open>evt \<le> RTSDS_EVENT_MAX\<close>, a lane \<open>sid \<le> max_sds\<close>
  (numbered below 32, where \<open>BIT\<close> is defined in C), any backend and any device, and a
  loaded script whose steps before the first STOP (or before the terminating record of
  the loader) are \<open>ss\<close>: a run that returns 0 has processed exactly the steps of \<open>ss\<close>,
  in order, and nothing behind the STOP. Its trace is the trace before the run followed,
  for step 0, step 1, ... of \<open>ss\<close>, by what \<open>step_trace\<close> gives for that step: first
  the sleep \<open>usleep_range(delay << 10, (delay << 10) + 1000)\<close> for the delay in force
  at that step, which is the value of the last WAIT at or before the step that applies
  to the lane (a later WAIT replaces the delay, it does not add to it; no sleep while
  the delay is 0), and then, when the step is a MODIFY that applies to the lane, the
  accesses and sleeps of the backend's masked write of the step's page, register,
  value and mask. So the sleep of a step comes before its register access, the WAIT
  step itself sleeps, and every later step up to the STOP sleeps the same delay again,
  whether or not it applies to the lane: the delay is never consumed. The run does
  return 0 when the backend calls of the MODIFY steps of \<open>ss\<close> that apply to the lane
  return 0.
\<close>

theorem rtsds_run_event_delay:
  assumes "evt \<le> RTSDS_EVENT_MAX" and "sid \<le> max_sds conf" and "sid < 32"
    and "sequence ctrl evt = Some (ss @ rest)"
    and "\<forall>s\<in>set ss. seq_action s \<noteq> RTSDS_SEQ_STOP"
    and "rest = [] \<or> seq_action (hd rest) = RTSDS_SEQ_STOP"
  shows "(fst (rtsds_run_event conf dev ctrl sid evt tr) = 0 \<longrightarrow>
            snd (rtsds_run_event conf dev ctrl sid evt tr) =
              fold (step_trace conf dev ctrl sid 0 ss) [0..<length ss] tr) \<and>
         ((\<forall>s\<in>set ss. seq_action s = RTSDS_SEQ_MASK \<and> seq_applies s sid \<longrightarrow>
             (\<forall>t. fst (conf_mask conf dev ctrl sid (ucast (seq_page s)) (ucast (seq_reg s))
                          (ucast (seq_val s)) (ucast (seq_mask s)) t) = 0)) \<longrightarrow>
            fst (rtsds_run_event conf dev ctrl sid evt tr) = 0)"
proof -
  have "rtsds_run_event conf dev ctrl sid evt tr =
          run_event_loop conf dev ctrl sid 0 (ss @ rest) tr"
    using assms(1,2,4) by (simp add: rtsds_run_event_def leD)
  then show ?thesis
    using run_event_loop_trace [OF assms(5,6), of conf dev ctrl sid 0 tr]
      run_event_loop_ok [OF assms(5,6), of sid conf dev ctrl 0 tr]
    by simp
qed

text \<open>
  Witness for C1: lane 2 of an RTL838x controller on a memory-like window, event INIT,
  script WAIT 5 (all lanes), MODIFY for lane 0 only, WAIT 3 (all lanes), MODIFY page 2
  register 1 value 0x10 mask 0xffff (all lanes), STOP, and one more MODIFY behind the
  STOP. The backend call of the one MODIFY that applies to lane 2 returns 0 on every
  trace. The run returns 0; it sleeps 5 units in the first WAIT step, 5 again in the
  MODIFY step that does not apply to the lane, 3 in the second WAIT step and 3 again in
  the last MODIFY step, and only then makes the register accesses of that step (page 2
  register 1 is read twice, then written). The MODIFY behind the STOP leaves nothing in
  the trace.
\<close>

theorem rtsds_run_event_delay_witness:
  "RTSDS_EVENT_INIT \<le> RTSDS_EVENT_MAX \<and> (2 :: u32) \<le> max_sds rtsds_838x_conf \<and>
   (2 :: u32) < 32 \<and>
   (\<forall>t. fst (rtsds_838x_mask (mem_dev (\<lambda>a. 0))
     (example_ctrl 0xbb00e780 (\<lambda>e. if e = RTSDS_EVENT_INIT
        then Some ([seq_rec RTSDS_SEQ_WAIT 0xffff 0 0 5 0,
                    seq_rec RTSDS_SEQ_MASK 0x0001 0 2 0x20 0xffff,
                    seq_rec RTSDS_SEQ_WAIT 0xffff 0 0 3 0,
                    seq_rec RTSDS_SEQ_MASK 0xffff 2 1 0x10 0xffff]
                   @ [seq_rec RTSDS_SEQ_STOP 0 0 0 0 0,
                      seq_rec RTSDS_SEQ_MASK 0xffff 0 1 0x30 0xffff])
        else None))
     2 2 1 0x10 0xffff t) = 0) \<and>
   rtsds_run_event rtsds_838x_conf (mem_dev (\<lambda>a. 0))
     (example_ctrl 0xbb00e780 (\<lambda>e. if e = RTSDS_EVENT_INIT
        then Some ([seq_rec RTSDS_SEQ_WAIT 0xffff 0 0 5 0,
                    seq_rec RTSDS_SEQ_MASK 0x0001 0 2 0x20 0xffff,
                    seq_rec RTSDS_SEQ_WAIT 0xffff 0 0 3 0,
                    seq_rec RTSDS_SEQ_MASK 0xffff 2 1 0x10 0xffff]
                   @ [seq_rec RTSDS_SEQ_STOP 0 0 0 0 0,
                      seq_rec RTSDS_SEQ_MASK 0xffff 0 1 0x30 0xffff])
        else None))
     2 RTSDS_EVENT_INIT []
   = (0, [USleep 5120 6120, USleep 5120 6120, USleep 3072 4072, USleep 3072 4072,
          IoRead 0xbb00f604, IoRead 0xbb00f604, IoWrite 0xbb00f604 0x10]) \<and>
   fold (step_trace rtsds_838x_conf (mem_dev (\<lambda>a. 0))
     (example_ctrl 0xbb00e780 (\<lambda>e. if e = RTSDS_EVENT_INIT
        then Some ([seq_rec RTSDS_SEQ_WAIT 0xffff 0 0 5 0,
                    seq_rec RTSDS_SEQ_MASK 0x0001 0 2 0x20 0xffff,
                    seq_rec RTSDS_SEQ_WAIT 0xffff 0 0 3 0,
                    seq_rec RTSDS_SEQ_MASK 0xffff 2 1 0x10 0xffff]
                   @ [seq_rec RTSDS_SEQ_STOP 0 0 0 0 0,
                      seq_rec RTSDS_SEQ_MASK 0xffff 0 1 0x30 0xffff])
        else None))
     2 0
     [seq_rec RTSDS_SEQ_WAIT 0xffff 0 0 5 0,
      seq_rec RTSDS_SEQ_MASK 0x0001 0 2 0x20 0xffff,
      seq_rec RTSDS_SEQ_WAIT 0xffff 0 0 3 0,
      seq_rec RTSDS_SEQ_MASK 0xffff 2 1 0x10 0xffff]) [0..<4] []
   = [USleep 5120 6120, USleep 5120 6120, USleep 3072 4072, USleep 3072 4072,
      IoRead 0xbb00f604, IoRead 0xbb00f604, IoWrite 0xbb00f604 0x10]"
  using rtsds_run_event_delay [of RTSDS_EVENT_INIT 2 rtsds_838x_conf
      "example_ctrl 0xbb00e780 (\<lambda>e. if e = RTSDS_EVENT_INIT
        then Some ([seq_rec RTSDS_SEQ_WAIT 0xffff 0 0 5 0,
                    seq_rec RTSDS_SEQ_MASK 0x0001 0 2 0x20 0xffff,
                    seq_rec RTSDS_SEQ_WAIT 0xffff 0 0 3 0,
                    seq_rec RTSDS_SEQ_MASK 0xffff 2 1 0x10 0xffff]
                   @ [seq_rec RTSDS_SEQ_STOP 0 0 0 0 0,
                      seq_rec RTSDS_SEQ_MASK 0xffff 0 1 0x30 0xffff])
        else None)"
      "[seq_rec RTSDS_SEQ_WAIT 0xffff 0 0 5 0,
        seq_rec RTSDS_SEQ_MASK 0x0001 0 2 0x20 0xffff,
        seq_rec RTSDS_SEQ_WAIT 0xffff 0 0 3 0,
        seq_rec RTSDS_SEQ_MASK 0xffff 2 1 0x10 0xffff]"
      "[seq_rec RTSDS_SEQ_STOP 0 0 0 0 0, seq_rec RTSDS_SEQ_MASK 0xffff 0 1 0x30 0xffff]"
      "mem_dev (\<lambda>a. 0)" "[]"]
  by (simp add: rtsds_run_event_def example_ctrl_def seq_rec_def rtsds_838x_conf_def
      RTSDS_EVENT_INIT_def RTSDS_EVENT_MAX_def RTSDS_SEQ_WAIT_def RTSDS_SEQ_MASK_def
      RTSDS_SEQ_STOP_def RTSDS_838X_MAX_SDS_def RTSDS_838X_MAX_PAGE_def seq_applies_def
      BIT_def usleep_range_def rtsds_838x_mask_def rtsds_838x_offset_def iomask32_def
      ioread32_def iowrite32_def Let_def seq_sleep_def delay_after_def upt_conv_Cons
      step_trace_def)

text \<open>
  Counterexample to C1 as stated: lane 2, script WAIT 5, WAIT 3, MODIFY (all three for
  all lanes), STOP. By the claim the two delays add up to one pending delay of 8 units
  that is slept once, before the MODIFY. The code sleeps 5 units in the first WAIT
  step, 3 in the second, and 3 again before the MODIFY; it never sleeps 8.
\<close>

theorem rtsds_run_event_delay_counterexample:
  "filter is_usleep (snd (rtsds_run_event rtsds_838x_conf (mem_dev (\<lambda>a. 0))
     (example_ctrl 0xbb00e780 (\<lambda>e. if e = RTSDS_EVENT_INIT
        then Some [seq_rec RTSDS_SEQ_WAIT 0xffff 0 0 5 0,
                   seq_rec RTSDS_SEQ_WAIT 0xffff 0 0 3 0,
                   seq_rec RTSDS_SEQ_MASK 0xffff 0 3 0x10 0xffff,
                   seq_rec RTSDS_SEQ_STOP 0 0 0 0 0]
        else None))
     2 RTSDS_EVENT_INIT []))
   = [USleep 5120 6120, USleep 3072 4072, USleep 3072 4072] \<and>
   spec_run_sleeps 2 0
     [seq_rec RTSDS_SEQ_WAIT 0xffff 0 0 5 0,
      seq_rec RTSDS_SEQ_WAIT 0xffff 0 0 3 0,
      seq_rec RTSDS_SEQ_MASK 0xffff 0 3 0x10 0xffff,
      seq_rec RTSDS_SEQ_STOP 0 0 0 0 0]
   = [USleep 8192 9192] \<and>
   filter is_usleep (snd (rtsds_run_event rtsds_838x_conf (mem_dev (\<lambda>a. 0))
     (example_ctrl 0xbb00e780 (\<lambda>e. if e = RTSDS_EVENT_INIT
        then Some [seq_rec RTSDS_SEQ_WAIT 0xffff 0 0 5 0,
                   seq_rec RTSDS_SEQ_WAIT 0xffff 0 0 3 0,
                   seq_rec RTSDS_SEQ_MASK 0xffff 0 3 0x10 0xffff,
                   seq_rec RTSDS_SEQ_STOP 0 0 0 0 0]
        else None))
     2 RTSDS_EVENT_INIT []))
   \<noteq> spec_run_sleeps 2 0
     [seq_rec RTSDS_SEQ_WAIT 0xffff 0 0 5 0,
      seq_rec RTSDS_SEQ_WAIT 0xffff 0 0 3 0,
      seq_rec RTSDS_SEQ_MASK 0xffff 0 3 0x10 0xffff,
      seq_rec RTSDS_SEQ_STOP 0 0 0 0 0]"
  by (simp add: rtsds_run_event_def example_ctrl_def seq_rec_def rtsds_838x_conf_def
      RTSDS_EVENT_INIT_def RTSDS_EVENT_MAX_def RTSDS_SEQ_WAIT_def RTSDS_SEQ_MASK_def
      RTSDS_SEQ_STOP_def RTSDS_838X_MAX_SDS_def RTSDS_838X_MAX_PAGE_def seq_applies_def
      BIT_def usleep_range_def rtsds_838x_mask_def rtsds_838x_offset_def iomask32_def
      ioread32_def iowrite32_def Let_def seq_sleep_def)

text \<open>
  C7 (as amended). If the backend call of a MODIFY step that applies to the lane (a
  lane \<open>sid \<le> max_sds\<close> numbered below 32) fails, that is returns a non-zero
  status, where the steps before it contain no STOP and have run with success, the run
  ends there: it returns \<open>-EIO\<close>, whatever status the backend returned, and its trace is
  the trace of the steps before, the sleep of the failing step and what the failing call
  did. No step behind the failing one is executed, and nothing is undone.
\<close>

theorem rtsds_run_event_abort:
  assumes "evt \<le> RTSDS_EVENT_MAX" and "sid \<le> max_sds conf" and "sid < 32"
    and "sequence ctrl evt = Some (pre @ s # post)"
    and "\<forall>x\<in>set pre. seq_action x \<noteq> RTSDS_SEQ_STOP"
    and "run_event_loop conf dev ctrl sid 0 pre tr = (0, tr1)"
    and "seq_action s = RTSDS_SEQ_MASK" and "seq_applies s sid"
    and "conf_mask conf dev ctrl sid (ucast (seq_page s)) (ucast (seq_reg s))
           (ucast (seq_val s)) (ucast (seq_mask s)) (tr1 @ seq_sleep (delay_after sid 0 pre))
         = (ret, tr2)"
    and "ret \<noteq> 0"
  shows "rtsds_run_event conf dev ctrl sid evt tr = (- EIO, tr2)"
proof -
  have "rtsds_run_event conf dev ctrl sid evt tr =
          run_event_loop conf dev ctrl sid 0 (pre @ s # post) tr"
    using assms(1,2,4) by (simp add: rtsds_run_event_def leD)
  then show ?thesis
    using run_event_loop_abort [OF assms(5,6,7,8,9,10)] by simp
qed

text \<open>
  Witness for C7: lane 2 of an RTL838x controller, script MODIFY page 0 register 3,
  MODIFY page 4 register 0 (the RTL838x has pages 0 to 3, so its backend returns
  \<open>-EINVAL\<close>), MODIFY page 0 register 0. The run returns \<open>-EIO\<close>; the write of the first
  step stays, the third step is not executed.
\<close>

theorem rtsds_run_event_abort_witness:
  "RTSDS_EVENT_INIT \<le> RTSDS_EVENT_MAX \<and> (2 :: u32) \<le> max_sds rtsds_838x_conf \<and>
   (2 :: u32) < 32 \<and>
   rtsds_838x_mask (mem_dev (\<lambda>a. 0))
     (example_ctrl 0xbb00e780 (\<lambda>e. if e = RTSDS_EVENT_INIT
        then Some ([seq_rec RTSDS_SEQ_MASK 0xffff 0 3 0x10 0xffff]
                   @ seq_rec RTSDS_SEQ_MASK 0xffff 4 0 0x20 0xffff
                   # [seq_rec RTSDS_SEQ_MASK 0xffff 0 0 0x30 0xffff])
        else None))
     2 4 0 0x20 0xffff [IoRead 0xbb00eb8c, IoWrite 0xbb00eb8c 0x10]
   = (- 22, [IoRead 0xbb00eb8c, IoWrite 0xbb00eb8c 0x10]) \<and>
   rtsds_run_event rtsds_838x_conf (mem_dev (\<lambda>a. 0))
     (example_ctrl 0xbb00e780 (\<lambda>e. if e = RTSDS_EVENT_INIT
        then Some ([seq_rec RTSDS_SEQ_MASK 0xffff 0 3 0x10 0xffff]
                   @ seq_rec RTSDS_SEQ_MASK 0xffff 4 0 0x20 0xffff
                   # [seq_rec RTSDS_SEQ_MASK 0xffff 0 0 0x30 0xffff])
        else None))
     2 RTSDS_EVENT_INIT []
   = (- 5, [IoRead 0xbb00eb8c, IoWrite 0xbb00eb8c 0x10])"
  using rtsds_run_event_abort [of RTSDS_EVENT_INIT 2 rtsds_838x_conf
      "example_ctrl 0xbb00e780 (\<lambda>e. if e = RTSDS_EVENT_INIT
        then Some ([seq_rec RTSDS_SEQ_MASK 0xffff 0 3 0x10 0xffff]
                   @ seq_rec RTSDS_SEQ_MASK 0xffff 4 0 0x20 0xffff
                   # [seq_rec RTSDS_SEQ_MASK 0xffff 0 0 0x30 0xffff])
        else None)"
      "[seq_rec RTSDS_SEQ_MASK 0xffff 0 3 0x10 0xffff]"
      "seq_rec RTSDS_SEQ_MASK 0xffff 4 0 0x20 0xffff"
      "[seq_rec RTSDS_SEQ_MASK 0xffff 0 0 0x30 0xffff]"
      "mem_dev (\<lambda>a. 0)" "[]" "[IoRead 0xbb00eb8c, IoWrite 0xbb00eb8c 0x10]"
      "- 22" "[IoRead 0xbb00eb8c, IoWrite 0xbb00eb8c 0x10]"]
  by (simp add: rtsds_run_event_def example_ctrl_def seq_rec_def rtsds_838x_conf_def
      RTSDS_EVENT_INIT_def RTSDS_EVENT_MAX_def RTSDS_SEQ_WAIT_def RTSDS_SEQ_MASK_def
      RTSDS_SEQ_STOP_def RTSDS_838X_MAX_SDS_def RTSDS_838X_MAX_PAGE_def seq_applies_def
      BIT_def usleep_range_def rtsds_838x_mask_def rtsds_838x_offset_def iomask32_def
      ioread32_def iowrite32_def Let_def seq_sleep_def delay_after_def EINVAL_def EIO_def)

text \<open>
  Counterexample to C7 as stated (the run returns the backend's error): lane 0 of an
  RTL838x controller, script MODIFY page 4 register 0. The backend returns \<open>-EINVAL\<close>
  (-22), the run returns \<open>-EIO\<close> (-5).
\<close>

theorem rtsds_run_event_error_counterexample:
  "fst (conf_mask rtsds_838x_conf (mem_dev (\<lambda>a. 0))
     (example_ctrl 0xbb00e780 (\<lambda>e. if e = RTSDS_EVENT_INIT
        then Some [seq_rec RTSDS_SEQ_MASK 0xffff 4 0 0x20 0xffff] else None))
     0 4 0 0x20 0xffff []) = - 22 \<and>
   fst (rtsds_run_event rtsds_838x_conf (mem_dev (\<lambda>a. 0))
     (example_ctrl 0xbb00e780 (\<lambda>e. if e = RTSDS_EVENT_INIT
        then Some [seq_rec RTSDS_SEQ_MASK 0xffff 4 0 0x20 0xffff] else None))
     0 RTSDS_EVENT_INIT []) = - 5 \<and>
   EINVAL = 22 \<and> EIO = 5 \<and>
   fst (rtsds_run_event rtsds_838x_conf (mem_dev (\<lambda>a. 0))
     (example_ctrl 0xbb00e780 (\<lambda>e. if e = RTSDS_EVENT_INIT
        then Some [seq_rec RTSDS_SEQ_MASK 0xffff 4 0 0x20 0xffff] else None))
     0 RTSDS_EVENT_INIT [])
   \<noteq> fst (conf_mask rtsds_838x_conf (mem_dev (\<lambda>a. 0))
     (example_ctrl 0xbb00e780 (\<lambda>e. if e = RTSDS_EVENT_INIT
        then Some [seq_rec RTSDS_SEQ_MASK 0xffff 4 0 0x20 0xffff] else None))
     0 4 0 0x20 0xffff [])"
  by (simp add: rtsds_run_event_def example_ctrl_def seq_rec_def rtsds_838x_conf_def
      RTSDS_EVENT_INIT_def RTSDS_EVENT_MAX_def RTSDS_SEQ_WAIT_def RTSDS_SEQ_MASK_def
      RTSDS_SEQ_STOP_def RTSDS_838X_MAX_SDS_def RTSDS_838X_MAX_PAGE_def seq_applies_def
      BIT_def rtsds_838x_mask_def Let_def EINVAL_def EIO_def)

section \<open>Controller: the stored mode and the lock\<close>

text \<open>
  C8. For every lane (numbered below 32, where \<open>BIT\<close> is defined in C), every backend
  and every device: when the PRE_SET_MODE event or, after it, the backend's
  \<open>set_mode\<close> fails, \<open>rtsds_phy_set_mode_int\<close> leaves the controller as it was, the
  stored mode included, and returns the non-zero status of the step that failed, having
  released the mutex; this holds for lanes 12 and 13 of an RTL839x or RTL931x too. The
  mode is stored only when both have returned 0. For a lane that has a record in
  \<open>ctrl->sds\<close> (twelve records, lanes 0 to 11) the controller left is then the old one
  with \<open>sds[sid].mode\<close> set to the requested mode and nothing else changed. For a lane
  without a record (lanes 12 and 13) the store of the successful transition lies behind
  the array and has no defined behaviour in C, which is the result \<open>None\<close>. (A failure
  of the POST_SET_MODE event comes after the store: it is returned with the mode that
  the backend has switched to already stored.)
\<close>

theorem rtsds_phy_set_mode_int_stored_mode:
  assumes "sid < 32"
  shows
    "(let pre = rtsds_run_event conf dev ctrl sid RTSDS_EVENT_PRE_SET_MODE (mutex_lock tr);
          sm = conf_set_mode conf dev ctrl sid hwmode (snd pre)
      in if fst pre = 0 \<and> fst sm = 0
         then if unat sid < length (sds ctrl)
              then \<exists>ret tr'. rtsds_phy_set_mode_int conf dev ctrl sid phymode hwmode tr =
                     Some (ret,
                           ctrl\<lparr>sds := (sds ctrl)
                                  [unat sid := (sds ctrl ! unat sid)\<lparr>sds_mode := phymode\<rparr>]\<rparr>,
                           tr')
              else rtsds_phy_set_mode_int conf dev ctrl sid phymode hwmode tr = None
         else rtsds_phy_set_mode_int conf dev ctrl sid phymode hwmode tr =
                Some (if fst pre \<noteq> 0 then fst pre else fst sm, ctrl,
                      mutex_unlock (if fst pre \<noteq> 0 then snd pre else snd sm))
              \<and> (if fst pre \<noteq> 0 then fst pre else fst sm) \<noteq> 0)"
  by (auto simp add: rtsds_phy_set_mode_int_def Let_def split: prod.splits)

text \<open>
  Witness for C8, on an RTL839x controller that manages its fourteen lanes, mode 22.
  Lane 3 with the hardware code of (7, 5), no scripts: the backend succeeds and the
  mode of lane 3 is stored. Lane 12 with a PRE_SET_MODE script whose MODIFY names page
  12, which the RTL839x does not have: the backend call returns \<open>-EINVAL\<close>, the event
  returns \<open>-EIO\<close>, which is returned, and the controller is unchanged. Lane 14, which
  the RTL839x does not have: the PRE_SET_MODE event returns \<open>-EINVAL\<close>, which is
  returned, and the controller is unchanged. Lane 12 without scripts: the backend
  succeeds, and the store has no record to go to.
\<close>

theorem rtsds_phy_set_mode_int_stored_mode_witness:
  "(3 :: u32) < 32 \<and> (12 :: u32) < 32 \<and> (14 :: u32) < 32 \<and>
   rtsds_phy_set_mode_int rtsds_839x_conf (mem_dev (\<lambda>a. 0))
     ((example_ctrl 0xbb00a000 (\<lambda>e. None))\<lparr>sds_mask := 0x3fff\<rparr>)
     3 22 (RTSDS_COMBOMODE 7 5) []
   = Some (0,
       (example_ctrl 0xbb00a000 (\<lambda>e. None))
         \<lparr>sds_mask := 0x3fff,
          sds := (sds (example_ctrl 0xbb00a000 (\<lambda>e. None)))
            [3 := (sds (example_ctrl 0xbb00a000 (\<lambda>e. None)) ! 3)\<lparr>sds_mode := 22\<rparr>]\<rparr>,
       [MutexLock, IoRead 0xbb00a508, IoWrite 0xbb00a508 0x5000,
        IoRead 0xbb000008, IoWrite 0xbb000008 0x7000, MutexUnlock]) \<and>
   rtsds_phy_set_mode_int rtsds_839x_conf (mem_dev (\<lambda>a. 0))
     ((example_ctrl 0xbb00a000 (\<lambda>e. if e = RTSDS_EVENT_PRE_SET_MODE
         then Some [seq_rec RTSDS_SEQ_MASK 0xffff 12 0 0x20 0xffff] else None))
        \<lparr>sds_mask := 0x3fff\<rparr>)
     12 22 (RTSDS_COMBOMODE 7 0) []
   = Some (- 5,
       (example_ctrl 0xbb00a000 (\<lambda>e. if e = RTSDS_EVENT_PRE_SET_MODE
         then Some [seq_rec RTSDS_SEQ_MASK 0xffff 12 0 0x20 0xffff] else None))
        \<lparr>sds_mask := 0x3fff\<rparr>,
       [MutexLock, MutexUnlock]) \<and>
   rtsds_phy_set_mode_int rtsds_839x_conf (mem_dev (\<lambda>a. 0))
     ((example_ctrl 0xbb00a000 (\<lambda>e. None))\<lparr>sds_mask := 0x3fff\<rparr>)
     14 22 (RTSDS_COMBOMODE 7 0) []
   = Some (- 22, (example_ctrl 0xbb00a000 (\<lambda>e. None))\<lparr>sds_mask := 0x3fff\<rparr>,
       [MutexLock, MutexUnlock]) \<and>
   fst (rtsds_839x_set_mode (mem_dev (\<lambda>a. 0))
     ((example_ctrl 0xbb00a000 (\<lambda>e. None))\<lparr>sds_mask := 0x3fff\<rparr>)
     12 (RTSDS_COMBOMODE 7 0) [MutexLock]) = 0 \<and>
   length (sds ((example_ctrl 0xbb00a000 (\<lambda>e. None))\<lparr>sds_mask := 0x3fff\<rparr>)) = 12 \<and>
   rtsds_phy_set_mode_int rtsds_839x_conf (mem_dev (\<lambda>a. 0))
     ((example_ctrl 0xbb00a000 (\<lambda>e. None))\<lparr>sds_mask := 0x3fff\<rparr>)
     12 22 (RTSDS_COMBOMODE 7 0) []
   = None"
  using
    rtsds_phy_set_mode_int_stored_mode [of 3 rtsds_839x_conf "mem_dev (\<lambda>a. 0)"
      "(example_ctrl 0xbb00a000 (\<lambda>e. None))\<lparr>sds_mask := 0x3fff\<rparr>"
      "[]" "RTSDS_COMBOMODE 7 5" 22]
    rtsds_phy_set_mode_int_stored_mode [of 12 rtsds_839x_conf "mem_dev (\<lambda>a. 0)"
      "(example_ctrl 0xbb00a000 (\<lambda>e. if e = RTSDS_EVENT_PRE_SET_MODE
         then Some [seq_rec RTSDS_SEQ_MASK 0xffff 12 0 0x20 0xffff] else None))
        \<lparr>sds_mask := 0x3fff\<rparr>"
      "[]" "RTSDS_COMBOMODE 7 0" 22]
    rtsds_phy_set_mode_int_stored_mode [of 14 rtsds_839x_conf "mem_dev (\<lambda>a. 0)"
      "(example_ctrl 0xbb00a000 (\<lambda>e. None))\<lparr>sds_mask := 0x3fff\<rparr>"
      "[]" "RTSDS_COMBOMODE 7 0" 22]
    rtsds_phy_set_mode_int_stored_mode [of 12 rtsds_839x_conf "mem_dev (\<lambda>a. 0)"
      "(example_ctrl 0xbb00a000 (\<lambda>e. None))\<lparr>sds_mask := 0x3fff\<rparr>"
      "[]" "RTSDS_COMBOMODE 7 0" 22]
  by (simp add: rtsds_phy_set_mode_int_def rtsds_run_event_def example_ctrl_def
      rtsds_839x_conf_def rtsds_839x_set_mode_def rtsds_839x_mask_def rtsds_839x_offset_def
      RTSDS_COMBOMODE_def RTSDS_MODE_def RTSDS_SUBMODE_def seq_rec_def seq_applies_def
      BIT_def RTSDS_SEQ_MASK_def RTSDS_SEQ_STOP_def RTSDS_SEQ_WAIT_def
      RTSDS_EVENT_PRE_SET_MODE_def RTSDS_EVENT_POST_SET_MODE_def
      RTSDS_EVENT_MAX_def RTSDS_839X_MAX_SDS_def RTSDS_839X_MAX_PAGE_def
      RTSDS_839X_MAC_SERDES_IF_CTRL_def RTSDS_REG_def
      RTSDS_SWITCH_ADDR_BASE_def mutex_lock_def mutex_unlock_def iomask32_def ioread32_def
      iowrite32_def Let_def EINVAL_def EIO_def)

text \<open>
  C9, evaluated on the code: \<open>rtsds_read\<close> on lane 0, page 0, register 0 of an RTL838x
  controller reads the window without taking the mutex, and \<open>rtsds_write\<close> reads and
  writes it without taking the mutex, so their traces break the lock discipline;
  \<open>rtsds_phy_set_mode_int\<close> on the same controller takes the mutex first and releases
  it last.
\<close>

theorem rtsds_read_takes_no_lock:
  "snd (rtsds_read rtsds_838x_conf (mem_dev (\<lambda>a. 0))
         \<lparr> macro_ctrl = example_ctrl 0xbb00e780 (\<lambda>e. None), macro_sid = 0 \<rparr> 0 0 [])
     = [IoRead 0xbb00e780] \<and>
   \<not> access_under_lock False
       (snd (rtsds_read rtsds_838x_conf (mem_dev (\<lambda>a. 0))
              \<lparr> macro_ctrl = example_ctrl 0xbb00e780 (\<lambda>e. None), macro_sid = 0 \<rparr> 0 0 [])) \<and>
   snd (rtsds_write rtsds_838x_conf (mem_dev (\<lambda>a. 0))
         \<lparr> macro_ctrl = example_ctrl 0xbb00e780 (\<lambda>e. None), macro_sid = 0 \<rparr> 0 0 0x10 [])
     = [IoRead 0xbb00e780, IoWrite 0xbb00e780 0x10] \<and>
   \<not> access_under_lock False
       (snd (rtsds_write rtsds_838x_conf (mem_dev (\<lambda>a. 0))
              \<lparr> macro_ctrl = example_ctrl 0xbb00e780 (\<lambda>e. None), macro_sid = 0 \<rparr> 0 0 0x10 [])) \<and>
   access_under_lock False
     [MutexLock, IoRead 0xbb00005c, IoWrite 0xbb00005c 1,
      IoRead 0xbb000028, IoWrite 0xbb000028 0x80, MutexUnlock] \<and>
   map_option (\<lambda>r. snd (snd r))
     (rtsds_phy_set_mode_int rtsds_838x_conf (mem_dev (\<lambda>a. 0))
        (example_ctrl 0xbb00e780 (\<lambda>e. None)) 4 22 (RTSDS_COMBOMODE 4 1) [])
     = Some [MutexLock, IoRead 0xbb00005c, IoWrite 0xbb00005c 1,
             IoRead 0xbb000028, IoWrite 0xbb000028 0x80, MutexUnlock]"
  by (simp add: rtsds_read_def rtsds_write_def rtsds_mask_def rtsds_838x_read_def
      rtsds_838x_mask_def rtsds_838x_offset_def BIT_def
      rtsds_phy_set_mode_int_def rtsds_run_event_def example_ctrl_def
      rtsds_838x_conf_def rtsds_838x_set_mode_def RTSDS_COMBOMODE_def RTSDS_MODE_def
      RTSDS_SUBMODE_def RTSDS_EVENT_PRE_SET_MODE_def RTSDS_EVENT_POST_SET_MODE_def
      RTSDS_EVENT_MAX_def RTSDS_838X_MAX_SDS_def RTSDS_838X_MAX_PAGE_def
      RTSDS_838X_INT_MODE_CTRL_def RTSDS_838X_SDS_MODE_SEL_def RTSDS_REG_def
      RTSDS_SWITCH_ADDR_BASE_def mutex_lock_def mutex_unlock_def iomask32_def ioread32_def
      iowrite32_def Let_def)


end
